theory Spec2Isabelle
  imports Complex_Main "HOL-Library.AList"
begin

section \<open>JavaScript values and objects\<close>

text \<open>
  The job table of \<^verbatim>\<open>job_manager.js\<close> holds plain JavaScript objects whose
  properties are assigned by name, some of them with names taken from the caller's
  patch object. An object is therefore a property list (name, value) in insertion
  order; a missing property reads as \<^verbatim>\<open>undefined\<close>. Numbers are the integers
  (counters, lengths and millisecond timestamps; doubles are exact on them up to
  \<open>2 ^ 53\<close>), \<open>JNaN\<close> is the one non-integer number the code can produce from
  them. A \<^verbatim>\<open>Date\<close> is its time value in milliseconds, and \<open>JIsoString t\<close> is
  the string \<^verbatim>\<open>new Date(t).toISOString()\<close>.
\<close>

datatype jsval =
    JUndefined
  | JNull
  | JBool bool
  | JNum int
  | JNaN
  | JStr string
  | JDate int
  | JIsoString int
  | JArr "jsval list"
  | JObj "(string \<times> jsval) list"

type_synonym jsobj = "(string \<times> jsval) list"

definition get_prop :: "jsobj \<Rightarrow> string \<Rightarrow> jsval" where
  "get_prop obj key = (case map_of obj key of None \<Rightarrow> JUndefined | Some v \<Rightarrow> v)"

definition set_prop :: "string \<Rightarrow> jsval \<Rightarrow> jsobj \<Rightarrow> jsobj" where
  "set_prop key v obj = AList.update key v obj"

definition object_keys :: "jsobj \<Rightarrow> string list" where
  "object_keys obj = map fst obj"

fun js_truthy :: "jsval \<Rightarrow> bool" where
  "js_truthy JUndefined = False"
| "js_truthy JNull = False"
| "js_truthy (JBool b) = b"
| "js_truthy (JNum n) = (n \<noteq> 0)"
| "js_truthy JNaN = False"
| "js_truthy (JStr s) = (s \<noteq> [])"
| "js_truthy (JDate t) = True"
| "js_truthy (JIsoString t) = True"
| "js_truthy (JArr xs) = True"
| "js_truthy (JObj ps) = True"

text \<open>\<^verbatim>\<open>a || b\<close>\<close>

definition js_or :: "jsval \<Rightarrow> jsval \<Rightarrow> jsval" where
  "js_or a b = (if js_truthy a then a else b)"

text \<open>
  \<^verbatim>\<open>x + 1\<close>, the right-hand side of \<^verbatim>\<open>x += 1\<close>. On a string it concatenates,
  on a plain object it concatenates to the object's string form. The string forms of
  arrays, dates and timestamp strings depend on number and date formatting, which is
  outside this development: the function is left unspecified there.
\<close>

fun js_add1 :: "jsval \<Rightarrow> jsval" where
  "js_add1 (JNum n) = JNum (n + 1)"
| "js_add1 JUndefined = JNaN"
| "js_add1 JNaN = JNaN"
| "js_add1 JNull = JNum 1"
| "js_add1 (JBool b) = JNum (if b then 2 else 1)"
| "js_add1 (JStr s) = JStr (s @ ''1'')"
| "js_add1 (JObj ps) = JStr ''[object Object]1''"

text \<open>
  \<^verbatim>\<open>ToNumber\<close>, with \<open>None\<close> for NaN. Strings and arrays convert through the
  numeric-literal grammar, which is outside this development: unspecified there (a
  timestamp string is no numeric literal).
\<close>

fun js_to_number :: "jsval \<Rightarrow> int option" where
  "js_to_number (JNum n) = Some n"
| "js_to_number (JDate t) = Some t"
| "js_to_number JNull = Some 0"
| "js_to_number (JBool b) = Some (if b then 1 else 0)"
| "js_to_number JUndefined = None"
| "js_to_number JNaN = None"
| "js_to_number (JObj ps) = None"
| "js_to_number (JIsoString t) = None"

datatype js_error = TypeError

text \<open>What a call did: it returned a value or threw.\<close>

datatype 'a outcome = Returns 'a | Throws js_error


section \<open>The Job Store (\<^verbatim>\<open>job_manager.js\<close>)\<close>

text \<open>
  \<^verbatim>\<open>const jobs = new Map()\<close>: job identifier to job object, in insertion order.
  Every function takes the table and returns it updated. The wall clock
  (\<^verbatim>\<open>new Date()\<close>) and the random identifier (\<^verbatim>\<open>generateJobId()\<close>) are
  arguments. Objects are values here: \<^verbatim>\<open>createJob\<close> makes every job and its
  nested objects afresh, and no two jobs share one.
\<close>

type_synonym store = "(string \<times> jsobj) list"

definition createJob :: "store \<Rightarrow> int \<Rightarrow> string \<Rightarrow> jsval \<Rightarrow> string \<times> store" where
  "createJob jobs now jobId params =
     (jobId,
      AList.update jobId
        [(''id'', JStr jobId),
         (''status'', JStr ''queued''),
         (''created'', JDate now),
         (''params'', params),
         (''result'', JNull),
         (''processedUsers'', JArr []),
         (''failedUsers'', JArr []),
         (''error'', JNull),
         (''progress'', JObj [(''total'', JNum 0), (''processed'', JNum 0)])]
        jobs)"

definition getJob :: "store \<Rightarrow> string \<Rightarrow> jsobj option" where
  "getJob jobs jobId = map_of jobs jobId"

text \<open>
  \<^verbatim>\<open>job[key] = v\<close> with a computed key. A \<open>jsobj\<close> holds the own properties of
  an object. A job inherits from \<^verbatim>\<open>Object.prototype\<close>, and under the key
  \<^verbatim>\<open>__proto__\<close> the assignment reaches the accessor of that name there: no own
  property is made; the prototype of the job is replaced when the value is an object
  or \<^verbatim>\<open>null\<close>, and nothing happens when it is any other value. Under every other
  key the assignment sets the job's own property. What a job inherits once its
  prototype has been replaced is not followed: the readers of this development read
  own properties. (A prototype of \<^verbatim>\<open>null\<close> puts the accessor out of reach, and the
  key is an ordinary one from then on; no statement below reads that key.)
\<close>

definition assign :: "string \<Rightarrow> jsval \<Rightarrow> jsobj \<Rightarrow> jsobj" where
  "assign key v job = (if key = ''__proto__'' then job else set_prop key v job)"

text \<open>
  \<^verbatim>\<open>Object.keys(data).forEach(key => { job[key] = data[key]; })\<close>, for a
  \<open>data\<close> that is an object of its own.
\<close>

definition copy_keys :: "jsobj \<Rightarrow> jsobj \<Rightarrow> jsobj" where
  "copy_keys data job = fold (\<lambda>key j. assign key (get_prop data key) j) (object_keys data) job"

text \<open>
  The same when \<open>data\<close> is the job object itself, as \<^verbatim>\<open>getJob\<close> hands it out:
  the keys are listed once, and every read of \<^verbatim>\<open>data[key]\<close> sees the job as the
  assignments before it have left it.
\<close>

definition copy_keys_onto_itself :: "jsobj \<Rightarrow> jsobj" where
  "copy_keys_onto_itself job = fold (\<lambda>key j. assign key (get_prop j key) j) (object_keys job) job"

text \<open>
  \<^verbatim>\<open>updateJobStatus(jobId, status, data = {})\<close>. Objects are values here, so the
  third argument is an object of its own; \<open>updateJobStatus_aliased\<close> is the call
  whose third argument is the very object the table holds under \<open>jobId\<close>.
\<close>

definition updateJobStatus :: "store \<Rightarrow> int \<Rightarrow> string \<Rightarrow> jsval \<Rightarrow> jsobj \<Rightarrow> bool \<times> store" where
  "updateJobStatus jobs now jobId status data =
     (case map_of jobs jobId of
        None \<Rightarrow> (False, jobs)
      | Some job \<Rightarrow>
          (let job1 = set_prop ''status'' status job;
               job2 = set_prop ''updated'' (JDate now) job1;
               job3 = copy_keys data job2
           in (True, AList.update jobId job3 jobs)))"

definition updateJobStatus_aliased :: "store \<Rightarrow> int \<Rightarrow> string \<Rightarrow> jsval \<Rightarrow> bool \<times> store" where
  "updateJobStatus_aliased jobs now jobId status =
     (case map_of jobs jobId of
        None \<Rightarrow> (False, jobs)
      | Some job \<Rightarrow>
          (let job1 = set_prop ''status'' status job;
               job2 = set_prop ''updated'' (JDate now) job1;
               job3 = copy_keys_onto_itself job2
           in (True, AList.update jobId job3 jobs)))"

text \<open>
  \<^verbatim>\<open>job.processedUsers.push(userData)\<close> and its twin on \<^verbatim>\<open>failedUsers\<close>:
  anything but an array has no \<^verbatim>\<open>push\<close> method, and the call throws.
\<close>

fun array_push :: "string \<Rightarrow> jsval \<Rightarrow> jsobj \<Rightarrow> js_error + jsobj" where
  "array_push key v job =
     (case get_prop job key of
        JArr xs \<Rightarrow> Inr (set_prop key (JArr (xs @ [v])) job)
      | _ \<Rightarrow> Inl TypeError)"

text \<open>
  \<^verbatim>\<open>job.progress.<field> = f(job.progress.<field>)\<close>. Reading a property of
  \<^verbatim>\<open>undefined\<close> or \<^verbatim>\<open>null\<close> throws; on a primitive the read gives
  \<^verbatim>\<open>undefined\<close> and the write is dropped (the module is not in strict mode). Arrays
  and dates would take the property as an extra one, which \<open>jsval\<close> cannot hold:
  unspecified there.
\<close>

fun progress_update :: "string \<Rightarrow> (jsval \<Rightarrow> jsval) \<Rightarrow> jsval \<Rightarrow> js_error + jsval" where
  "progress_update field f JUndefined = Inl TypeError"
| "progress_update field f JNull = Inl TypeError"
| "progress_update field f (JObj ps) = Inr (JObj (set_prop field (f (get_prop ps field)) ps))"
| "progress_update field f (JBool b) = Inr (JBool b)"
| "progress_update field f (JNum n) = Inr (JNum n)"
| "progress_update field f JNaN = Inr JNaN"
| "progress_update field f (JStr s) = Inr (JStr s)"
| "progress_update field f (JIsoString t) = Inr (JIsoString t)"

definition set_progress :: "string \<Rightarrow> (jsval \<Rightarrow> jsval) \<Rightarrow> jsobj \<Rightarrow> js_error + jsobj" where
  "set_progress field f job =
     (case progress_update field f (get_prop job ''progress'') of
        Inl e \<Rightarrow> Inl e
      | Inr p \<Rightarrow> Inr (set_prop ''progress'' p job))"

text \<open>
  \<^verbatim>\<open>addProcessedUser\<close> and \<^verbatim>\<open>addFailedUser\<close> differ in the list they push to. A
  throw in the second statement leaves the push of the first in the table.
\<close>

definition add_user :: "string \<Rightarrow> store \<Rightarrow> string \<Rightarrow> jsval \<Rightarrow> bool outcome \<times> store" where
  "add_user listName jobs jobId userData =
     (case map_of jobs jobId of
        None \<Rightarrow> (Returns False, jobs)
      | Some job \<Rightarrow>
          (case array_push listName userData job of
             Inl e \<Rightarrow> (Throws e, jobs)
           | Inr job1 \<Rightarrow>
               (case set_progress ''processed'' js_add1 job1 of
                  Inl e \<Rightarrow> (Throws e, AList.update jobId job1 jobs)
                | Inr job2 \<Rightarrow> (Returns True, AList.update jobId job2 jobs))))"

definition addProcessedUser :: "store \<Rightarrow> string \<Rightarrow> jsval \<Rightarrow> bool outcome \<times> store" where
  "addProcessedUser jobs jobId userData = add_user ''processedUsers'' jobs jobId userData"

definition addFailedUser :: "store \<Rightarrow> string \<Rightarrow> jsval \<Rightarrow> bool outcome \<times> store" where
  "addFailedUser jobs jobId userData = add_user ''failedUsers'' jobs jobId userData"

definition setTotalFollowers :: "store \<Rightarrow> string \<Rightarrow> jsval \<Rightarrow> bool outcome \<times> store" where
  "setTotalFollowers jobs jobId totalFollowers =
     (case map_of jobs jobId of
        None \<Rightarrow> (Returns False, jobs)
      | Some job \<Rightarrow>
          (case set_progress ''total'' (\<lambda>_. totalFollowers) job of
             Inl e \<Rightarrow> (Throws e, jobs)
           | Inr job1 \<Rightarrow> (Returns True, AList.update jobId job1 jobs)))"

text \<open>
  \<^verbatim>\<open>completeJob(jobId, result = {})\<close>: the default takes the place of an argument
  that is \<^verbatim>\<open>undefined\<close>.
\<close>

definition default_result :: "jsval \<Rightarrow> jsval" where
  "default_result result = (if result = JUndefined then JObj [] else result)"

definition completeJob :: "store \<Rightarrow> int \<Rightarrow> string \<Rightarrow> jsval \<Rightarrow> bool \<times> store" where
  "completeJob jobs now jobId result =
     (case map_of jobs jobId of
        None \<Rightarrow> (False, jobs)
      | Some job \<Rightarrow>
          (let job1 = set_prop ''status'' (JStr ''completed'') job;
               job2 = set_prop ''result'' (default_result result) job1;
               job3 = set_prop ''completed'' (JDate now) job2
           in (True, AList.update jobId job3 jobs)))"

definition failJob :: "store \<Rightarrow> int \<Rightarrow> string \<Rightarrow> jsval \<Rightarrow> bool \<times> store" where
  "failJob jobs now jobId err =
     (case map_of jobs jobId of
        None \<Rightarrow> (False, jobs)
      | Some job \<Rightarrow>
          (let job1 = set_prop ''status'' (JStr ''failed'') job;
               job2 = set_prop ''error'' err job1;
               job3 = set_prop ''completed'' (JDate now) job2
           in (True, AList.update jobId job3 jobs)))"

text \<open>
  \<^verbatim>\<open>cleanupOldJobs(maxAgeHours = 24)\<close>. The age is
  \<^verbatim>\<open>(now - jobDate) / (1000 * 60 * 60)\<close> with
  \<^verbatim>\<open>jobDate = job.completed || job.created\<close>; a comparison with NaN is false.
  Deleting the entry under the cursor of a \<^verbatim>\<open>Map\<close> iteration leaves the
  iteration over the remaining entries as it is.
\<close>

definition ageHours :: "int \<Rightarrow> jsobj \<Rightarrow> rat option" where
  "ageHours now job =
     (let jobDate = js_or (get_prop job ''completed'') (get_prop job ''created'')
      in case js_to_number jobDate of
           None \<Rightarrow> None
         | Some d \<Rightarrow> Some (of_int (now - d) / of_int (1000 * 60 * 60)))"

definition too_old :: "int \<Rightarrow> rat \<Rightarrow> jsobj \<Rightarrow> bool" where
  "too_old now maxAgeHours job =
     (case ageHours now job of None \<Rightarrow> False | Some a \<Rightarrow> a > maxAgeHours)"

definition cleanupOldJobs :: "int \<Rightarrow> rat \<Rightarrow> store \<Rightarrow> store" where
  "cleanupOldJobs now maxAgeHours jobs =
     fold (\<lambda>(jobId, job) js. if too_old now maxAgeHours job then AList.delete jobId js else js)
          jobs jobs"

text \<open>The timer callback: \<^verbatim>\<open>setInterval(() => cleanupOldJobs(), 60 * 60 * 1000)\<close>.\<close>

definition reaper_sweep :: "int \<Rightarrow> store \<Rightarrow> store" where
  "reaper_sweep now jobs = cleanupOldJobs now 24 jobs"

text \<open>Reading a job back, for the statements below.\<close>

definition field_of :: "store \<Rightarrow> string \<Rightarrow> string \<Rightarrow> jsval" where
  "field_of jobs jobId key =
     (case map_of jobs jobId of None \<Rightarrow> JUndefined | Some job \<Rightarrow> get_prop job key)"

definition progress_of :: "store \<Rightarrow> string \<Rightarrow> string \<Rightarrow> jsval" where
  "progress_of jobs jobId field =
     (case field_of jobs jobId ''progress'' of JObj ps \<Rightarrow> get_prop ps field | _ \<Rightarrow> JUndefined)"

text \<open>
  A job as \<^verbatim>\<open>createJob\<close> shapes it: both user lists are arrays and
  \<^verbatim>\<open>progress.processed\<close> is a number.
\<close>

fun is_array :: "jsval \<Rightarrow> bool" where
  "is_array (JArr xs) = True"
| "is_array _ = False"

fun is_number :: "jsval \<Rightarrow> bool" where
  "is_number (JNum n) = True"
| "is_number _ = False"

fun is_date :: "jsval \<Rightarrow> bool" where
  "is_date (JDate t) = True"
| "is_date _ = False"

definition well_shaped :: "store \<Rightarrow> string \<Rightarrow> bool" where
  "well_shaped jobs jobId \<longleftrightarrow>
     is_array (field_of jobs jobId ''processedUsers'') \<and>
     is_array (field_of jobs jobId ''failedUsers'') \<and>
     is_number (progress_of jobs jobId ''processed'')"

text \<open>The calls the claims range over, and a run of them from whatever callers.\<close>

datatype store_call =
    AddProcessedUser string jsval
  | AddFailedUser string jsval
  | SetTotalFollowers string jsval
  | UpdateJobStatus int string jsval jsobj
  | CompleteJob int string jsval
  | FailJob int string jsval

fun store_step :: "store_call \<Rightarrow> store \<Rightarrow> store" where
  "store_step (AddProcessedUser jobId userData) jobs = snd (addProcessedUser jobs jobId userData)"
| "store_step (AddFailedUser jobId userData) jobs = snd (addFailedUser jobs jobId userData)"
| "store_step (SetTotalFollowers jobId n) jobs = snd (setTotalFollowers jobs jobId n)"
| "store_step (UpdateJobStatus now jobId status data) jobs = snd (updateJobStatus jobs now jobId status data)"
| "store_step (CompleteJob now jobId result) jobs = snd (completeJob jobs now jobId result)"
| "store_step (FailJob now jobId err) jobs = snd (failJob jobs now jobId err)"

definition run_calls :: "store_call list \<Rightarrow> store \<Rightarrow> store" where
  "run_calls calls jobs = fold store_step calls jobs"

fun patches_progress :: "string \<Rightarrow> store_call \<Rightarrow> bool" where
  "patches_progress jobId (UpdateJobStatus now jobId' status data) =
     (jobId' = jobId \<and> ''progress'' \<in> set (object_keys data))"
| "patches_progress jobId _ = False"

fun adds_user :: "string \<Rightarrow> store_call \<Rightarrow> bool" where
  "adds_user jobId (AddProcessedUser jobId' userData) = (jobId' = jobId)"
| "adds_user jobId (AddFailedUser jobId' userData) = (jobId' = jobId)"
| "adds_user jobId _ = False"


section \<open>The bot (\<^verbatim>\<open>instagram_bot.js\<close> and its Puppeteer variant)\<close>

text \<open>
  The repository holds the bot twice: \<^verbatim>\<open>instagram_bot.js\<close> (Playwright) and an
  older variant of the same module (Puppeteer, with the reconnection supervisor).
  Definitions of the first end in \<open>_pw\<close>, of the second in \<open>_pp\<close>; what the two
  share has no suffix.

  The world the bot acts on: the job table, the clock, the documents of the
  \<^verbatim>\<open>processed_users\<close> collection (follower, account owner, time), whether the job's
  browser is connected, and what the run printed and slept, oldest first.
\<close>

datatype event =
    Sleep int
  | InitAttempt nat
  | RetryWait int
  | Scan
  | Send string

record world =
  jobStore :: store
  clock :: int
  records :: "(string \<times> string \<times> int) list"
  connected :: bool
  trace :: "event list"

definition say :: "event \<Rightarrow> world \<Rightarrow> world" where
  "say e w = w\<lparr>trace := trace w @ [e]\<rparr>"

definition sleep :: "int \<Rightarrow> world \<Rightarrow> world" where
  "sleep ms w = w\<lparr>clock := clock w + ms, trace := trace w @ [Sleep ms]\<rparr>"

text \<open>Numbers in template strings.\<close>

definition digit_char :: "nat \<Rightarrow> char" where
  "digit_char d = ''0123456789'' ! d"

function show_nat :: "nat \<Rightarrow> string" where
  "show_nat n = (if n < 10 then [digit_char n] else show_nat (n div 10) @ [digit_char (n mod 10)])"
  by pat_completeness auto
termination
  by (relation "measure (\<lambda>n. n)") auto

declare show_nat.simps [simp del]

text \<open>\<^verbatim>\<open>s.includes(sub)\<close>\<close>

fun js_includes :: "string \<Rightarrow> string \<Rightarrow> bool" where
  "js_includes [] sub = (sub = [])"
| "js_includes (c # cs) sub = (take (length sub) (c # cs) = sub \<or> js_includes cs sub)"


subsection \<open>Session establishment: \<^verbatim>\<open>initBrowser\<close>\<close>

text \<open>
  What the browser does in one attempt is the environment's. Connecting and launching
  carry a timeout (the Puppeteer variant races the connection against a timer), and so
  does every \<^verbatim>\<open>page.goto\<close>: they succeed (\<open>None\<close>) or throw (\<open>Some msg\<close>).
  The calls that create and configure the page, \<^verbatim>\<open>page.setCookie\<close> (Puppeteer)
  and \<^verbatim>\<open>browser.close()\<close> carry none: they resolve, reject, or stay pending for
  good. Of \<^verbatim>\<open>browser.close()\<close>, whose rejection is caught and dropped, only that
  distinction matters: the one in the handler of the page step, and the one in the
  handler of the attempt.
\<close>

datatype await = Resolves | Rejects string | Pends

record attempt_env =
  connect :: "string option"
  new_page :: await
  gotos :: "nat \<Rightarrow> string option"
  set_cookie :: await
  inner_close_pends :: bool
  outer_close_pends :: bool

text \<open>How a piece of the program ends when it gives no value: it throws, or it waits
  on a promise that never settles.\<close>

datatype halt = Thrown string | Hung

definition navigationRetries :: nat where
  "navigationRetries = 3"

text \<open>
  The navigation loop. \<open>settle\<close> is the Playwright variant's two seconds after a
  successful \<^verbatim>\<open>goto\<close>.
\<close>

function navigate :: "bool \<Rightarrow> (nat \<Rightarrow> string option) \<Rightarrow> nat \<Rightarrow> world \<Rightarrow> (string + unit) \<times> world" where
  "navigate settle goto navAttempt w =
     (if navAttempt < navigationRetries then
        (case goto navAttempt of
           None \<Rightarrow> (Inr (), if settle then sleep 2000 w else w)
         | Some navError \<Rightarrow>
             (if navAttempt + 1 < navigationRetries
              then navigate settle goto (navAttempt + 1) (sleep 5000 w)
              else (Inl (''Failed to navigate to Instagram after '' @ show_nat navigationRetries
                         @ '' attempts''), w)))
      else (Inl ''Failed to navigate to Instagram'', w))"
  by pat_completeness auto
termination
  by (relation "measure (\<lambda>(settle, goto, navAttempt, w). navigationRetries - navAttempt)") auto

declare navigate.simps [simp del]

text \<open>
  The body of the \<^verbatim>\<open>try\<close> of one attempt, Playwright. The page step stands for
  \<^verbatim>\<open>browser.newContext\<close>, \<^verbatim>\<open>context.addCookies\<close> and
  \<^verbatim>\<open>context.newPage\<close>; its handler closes the browser and throws the error on.
\<close>

definition try_init_pw :: "attempt_env \<Rightarrow> bool \<Rightarrow> world \<Rightarrow> (halt + unit) \<times> world" where
  "try_init_pw e remote w =
     (case connect e of
        Some msg \<Rightarrow>
          (Inl (Thrown (if remote then ''Remote browser connection failed: '' @ msg else msg)), w)
      | None \<Rightarrow>
          (case new_page e of
             Pends \<Rightarrow> (Inl Hung, w)
           | Rejects pageError \<Rightarrow>
               (if inner_close_pends e then (Inl Hung, w) else (Inl (Thrown pageError), w))
           | Resolves \<Rightarrow>
               (case navigate True (gotos e) 0 w of
                  (Inl msg, w1) \<Rightarrow> (Inl (Thrown msg), w1)
                | (Inr u, w1) \<Rightarrow> (Inr (), sleep 5000 w1))))"

text \<open>The same, Puppeteer: no settling wait, and the cookies are set after navigation.\<close>

definition try_init_pp :: "attempt_env \<Rightarrow> bool \<Rightarrow> world \<Rightarrow> (halt + unit) \<times> world" where
  "try_init_pp e remote w =
     (case connect e of
        Some msg \<Rightarrow>
          (Inl (Thrown (if remote then ''Remote browser connection failed: '' @ msg else msg)), w)
      | None \<Rightarrow>
          (case new_page e of
             Pends \<Rightarrow> (Inl Hung, w)
           | Rejects pageError \<Rightarrow>
               (if inner_close_pends e then (Inl Hung, w) else (Inl (Thrown pageError), w))
           | Resolves \<Rightarrow>
               (case navigate False (gotos e) 0 w of
                  (Inl msg, w1) \<Rightarrow> (Inl (Thrown msg), w1)
                | (Inr u, w1) \<Rightarrow>
                    (case set_cookie e of
                       Pends \<Rightarrow> (Inl Hung, w1)
                     | Rejects cookieError \<Rightarrow> (Inl (Thrown cookieError), w1)
                     | Resolves \<Rightarrow> (Inr (), sleep 5000 w1)))))"

definition maxRetries :: nat where
  "maxRetries = 5"

text \<open>
  The retry loop around the attempt, the same in both variants. \<open>browser\<close> says
  whether the variable of that name holds a browser: it is declared outside the loop,
  so it does from the first attempt on whose connection came about, and the handler
  of the attempt closes what it holds before it counts the attempt. A session is named
  by the attempt that made it; a loop that ran out without returning or throwing would
  return \<^verbatim>\<open>undefined\<close>, here \<open>Inr None\<close>.
\<close>

datatype session = Session nat

function initBrowser_loop ::
  "(attempt_env \<Rightarrow> bool \<Rightarrow> world \<Rightarrow> (halt + unit) \<times> world) \<Rightarrow> (nat \<Rightarrow> attempt_env) \<Rightarrow> bool
     \<Rightarrow> bool \<Rightarrow> nat \<Rightarrow> world \<Rightarrow> (halt + session option) \<times> world" where
  "initBrowser_loop tryOnce env remote browser retryCount w =
     (if retryCount < maxRetries then
        (case tryOnce (env retryCount) remote (say (InitAttempt (retryCount + 1)) w) of
           (Inr u, w1) \<Rightarrow> (Inr (Some (Session retryCount)), w1)
         | (Inl Hung, w1) \<Rightarrow> (Inl Hung, w1)
         | (Inl (Thrown msg), w1) \<Rightarrow>
             (let browser' = (browser \<or> connect (env retryCount) = None)
              in if browser' \<and> outer_close_pends (env retryCount) then (Inl Hung, w1)
                 else if retryCount + 1 \<ge> maxRetries
                 then (Inl (Thrown (''Failed to initialize browser after '' @ show_nat maxRetries
                                    @ '' attempts: '' @ msg)), w1)
                 else (let delayMs = 8000 * int (retryCount + 1)
                       in initBrowser_loop tryOnce env remote browser' (retryCount + 1)
                            (sleep delayMs (say (RetryWait delayMs) w1)))))
      else (Inr None, w))"
  by pat_completeness auto
termination
  by (relation "measure (\<lambda>(tryOnce, env, remote, browser, retryCount, w). maxRetries - retryCount)") auto

declare initBrowser_loop.simps [simp del]

definition initBrowser ::
  "(attempt_env \<Rightarrow> bool \<Rightarrow> world \<Rightarrow> (halt + unit) \<times> world) \<Rightarrow> (nat \<Rightarrow> attempt_env) \<Rightarrow> bool
     \<Rightarrow> world \<Rightarrow> (halt + session option) \<times> world" where
  "initBrowser tryOnce env remote w = initBrowser_loop tryOnce env remote False 0 w"

definition initBrowser_pw :: "(nat \<Rightarrow> attempt_env) \<Rightarrow> bool \<Rightarrow> world \<Rightarrow> (halt + session option) \<times> world" where
  "initBrowser_pw = initBrowser try_init_pw"

definition initBrowser_pp :: "(nat \<Rightarrow> attempt_env) \<Rightarrow> bool \<Rightarrow> world \<Rightarrow> (halt + session option) \<times> world" where
  "initBrowser_pp = initBrowser try_init_pp"



subsection \<open>The Processed-Record Store\<close>

text \<open>
  The variable \<^verbatim>\<open>collection\<close> is \<^verbatim>\<open>null\<close> when no store is configured or
  the connection failed. Whether a single \<^verbatim>\<open>findOne\<close> or \<^verbatim>\<open>insertOne\<close>
  throws is the environment's.
\<close>

definition findOne :: "(string \<times> string \<times> int) list \<Rightarrow> string \<Rightarrow> string \<Rightarrow> (string \<times> string \<times> int) option" where
  "findOne docs followerUsername owner =
     find (\<lambda>(f, a, t). f = followerUsername \<and> a = owner) docs"

definition markUserAsProcessed :: "bool \<Rightarrow> bool \<Rightarrow> string \<Rightarrow> string \<Rightarrow> world \<Rightarrow> bool \<times> world" where
  "markUserAsProcessed has_collection insert_throws followerUsername owner w =
     (if \<not> has_collection then (True, w)
      else if insert_throws then (True, w)
      else (True, w\<lparr>records := records w @ [(followerUsername, owner, clock w)]\<rparr>))"


subsection \<open>Follower discovery: \<^verbatim>\<open>checkNotifications\<close>\<close>

text \<open>
  One scan of the notifications page either throws (\<^verbatim>\<open>goto\<close>,
  \<^verbatim>\<open>waitForSelector\<close>, the scrolling or the evaluation) or yields the
  \<^verbatim>\<open>span\<close> elements of the page: whether the text of each mentions
  \<^verbatim>\<open>started following you\<close> and the trimmed text of the link beside it, if there is
  a link.
\<close>

datatype notif = Notif (mentions_follow: bool) (link_text: "string option")

record scan_env =
  feed :: "string + notif list"
  find_throws :: "string \<Rightarrow> bool"

fun extract_followers :: "notif list \<Rightarrow> string list \<Rightarrow> string list" where
  "extract_followers [] followers = followers"
| "extract_followers (element # elements) followers =
     extract_followers elements
       (if mentions_follow element then
          (case link_text element of
             None \<Rightarrow> followers
           | Some username \<Rightarrow>
               if username \<noteq> [] \<and> username \<notin> set followers then followers @ [username]
               else followers)
        else followers)"

fun filter_unprocessed ::
  "(string \<Rightarrow> bool) \<Rightarrow> (string \<times> string \<times> int) list \<Rightarrow> string \<Rightarrow> string list \<Rightarrow> string list \<Rightarrow> string list" where
  "filter_unprocessed throws docs owner [] unprocessedFollowers = unprocessedFollowers"
| "filter_unprocessed throws docs owner (username # rest) unprocessedFollowers =
     filter_unprocessed throws docs owner rest
       (if throws username then unprocessedFollowers @ [username]
        else (case findOne docs username owner of
                None \<Rightarrow> unprocessedFollowers @ [username]
              | Some existingUser \<Rightarrow> unprocessedFollowers))"

text \<open>
  The whole body is one \<^verbatim>\<open>try\<close> whose \<^verbatim>\<open>catch\<close> returns the empty list. The
  result type leaves room for a thrown error because the caller wraps the call in a
  \<^verbatim>\<open>try\<close> of its own.
\<close>

definition checkNotifications :: "scan_env \<Rightarrow> bool \<Rightarrow> string \<Rightarrow> world \<Rightarrow> (string + string list) \<times> world" where
  "checkNotifications e has_collection owner w =
     (let w1 = say Scan w
      in case feed e of
           Inl err \<Rightarrow> (Inr [], w1)
         | Inr elements \<Rightarrow>
             (let newFollowers = extract_followers elements []
              in if has_collection
                 then (Inr (filter_unprocessed (find_throws e) (records w1) owner newFollowers []), w1)
                 else (Inr newFollowers, w1)))"


subsection \<open>The job: \<^verbatim>\<open>processFollowersJob\<close> from discovery on\<close>

text \<open>
  The job is modelled from \<^verbatim>\<open>const accountOwner = username\<close> on. What comes
  before (cookies, store connection, first session, login check) is present by its
  results: whether there is a collection, and a world whose browser is connected.
  \<open>job_manager\<close> is the guard \<^verbatim>\<open>jobManager && jobId\<close> of the Playwright variant,
  which runs without a job table for the synchronous API; the Puppeteer variant calls
  the table unguarded.

  The job object is made by \<^verbatim>\<open>createJob\<close> and written by these calls only, so the
  calls that could throw on a misshapen job do not; the model goes on with the table
  the call left.
\<close>

record job_ctx =
  job_id :: string
  owner :: string
  has_collection :: bool
  job_manager :: bool

definition jm_updateJobStatus :: "job_ctx \<Rightarrow> string \<Rightarrow> jsobj \<Rightarrow> world \<Rightarrow> world" where
  "jm_updateJobStatus ctx status data w =
     w\<lparr>jobStore := snd (updateJobStatus (jobStore w) (clock w) (job_id ctx) (JStr status) data)\<rparr>"

definition jm_addProcessedUser :: "job_ctx \<Rightarrow> jsval \<Rightarrow> world \<Rightarrow> world" where
  "jm_addProcessedUser ctx userData w =
     w\<lparr>jobStore := snd (addProcessedUser (jobStore w) (job_id ctx) userData)\<rparr>"

definition jm_addFailedUser :: "job_ctx \<Rightarrow> jsval \<Rightarrow> world \<Rightarrow> world" where
  "jm_addFailedUser ctx userData w =
     w\<lparr>jobStore := snd (addFailedUser (jobStore w) (job_id ctx) userData)\<rparr>"

definition jm_setTotalFollowers :: "job_ctx \<Rightarrow> nat \<Rightarrow> world \<Rightarrow> world" where
  "jm_setTotalFollowers ctx n w =
     w\<lparr>jobStore := snd (setTotalFollowers (jobStore w) (job_id ctx) (JNum (int n)))\<rparr>"

definition jm_completeJob :: "job_ctx \<Rightarrow> jsval \<Rightarrow> world \<Rightarrow> world" where
  "jm_completeJob ctx res w =
     w\<lparr>jobStore := snd (completeJob (jobStore w) (clock w) (job_id ctx) res)\<rparr>"

definition jm_failJob :: "job_ctx \<Rightarrow> string \<Rightarrow> world \<Rightarrow> world" where
  "jm_failJob ctx msg w =
     w\<lparr>jobStore := snd (failJob (jobStore w) (clock w) (job_id ctx) (JStr msg))\<rparr>"

definition guarded :: "job_ctx \<Rightarrow> (world \<Rightarrow> world) \<Rightarrow> world \<Rightarrow> world" where
  "guarded ctx call w = (if job_manager ctx then call w else w)"

text \<open>
  The environment of a job: the scans of the notifications page by attempt, what
  happens around each candidate by index, and what the browser does in each attempt
  of a reconnection at that candidate.
\<close>

record send_env =
  drop_before :: bool
  send_result :: "string + bool"
  send_ms :: "nat option"
  drop_during :: bool
  insert_throws :: bool
  math_random :: rat

record job_env =
  scans :: "nat \<Rightarrow> scan_env"
  steps :: "nat \<Rightarrow> send_env"
  reinit :: "nat \<Rightarrow> nat \<Rightarrow> attempt_env"

definition maxNotificationRetries :: nat where
  "maxNotificationRetries = 3"

text \<open>
  The retry loop around \<^verbatim>\<open>checkNotifications\<close>; it returns \<^verbatim>\<open>newFollowers\<close>.
  After the last failed attempt the list is set to empty and the loop runs out.
  \<open>warn\<close> is the call that annotates the job, guarded or not.
\<close>

definition notification_warning :: "job_ctx \<Rightarrow> world \<Rightarrow> world" where
  "notification_warning ctx =
     jm_updateJobStatus ctx ''warning''
       [(''warning'', JStr ''Notification check failed, process may be incomplete'')]"

function notification_retry ::
  "job_ctx \<Rightarrow> (world \<Rightarrow> world) \<Rightarrow> (nat \<Rightarrow> scan_env) \<Rightarrow> nat \<Rightarrow> world \<Rightarrow> string list \<times> world" where
  "notification_retry ctx warn scan notifAttempt w =
     (if notifAttempt < maxNotificationRetries then
        (case checkNotifications (scan notifAttempt) (has_collection ctx) (owner ctx) w of
           (Inr newFollowers, w1) \<Rightarrow> (newFollowers, w1)
         | (Inl notifError, w1) \<Rightarrow>
             (if notifAttempt + 1 < maxNotificationRetries
              then notification_retry ctx warn scan (notifAttempt + 1) (sleep 10000 w1)
              else ([], warn w1)))
      else ([], w))"
  by pat_completeness auto
termination
  by (relation "measure (\<lambda>(ctx, warn, scan, notifAttempt, w). maxNotificationRetries - notifAttempt)") auto

declare notification_retry.simps [simp del]


subsection \<open>The delivery loop, Puppeteer variant\<close>

text \<open>
  \<^verbatim>\<open>Promise.race([messagePromise, timeoutPromise])\<close> with the timer at 120000 ms:
  what the send settles with if it settles earlier, the timer's rejection otherwise.
  The second component is the time the race took. A send the timer overtakes is
  abandoned and the model does not follow it further.
\<close>

definition race_timeout :: "send_env \<Rightarrow> (string + bool) \<times> int" where
  "race_timeout e =
     (case send_ms e of
        Some ms \<Rightarrow> if ms < 120000 then (send_result e, int ms)
                   else (Inl ''Message sending timeout'', 120000)
      | None \<Rightarrow> (Inl ''Message sending timeout'', 120000))"

definition user_data :: "string \<Rightarrow> string \<Rightarrow> int \<Rightarrow> jsobj \<Rightarrow> jsval" where
  "user_data username status now detail =
     JObj ([(''username'', JStr username), (''status'', JStr status),
            (''timestamp'', JIsoString now)] @ detail)"

definition connection_error :: "string \<Rightarrow> bool" where
  "connection_error msg \<longleftrightarrow>
     js_includes msg ''socket hang up'' \<or> js_includes msg ''WebSocket'' \<or>
     js_includes msg ''target closed'' \<or> js_includes msg ''connection''"

text \<open>
  The \<^verbatim>\<open>try\<close>/\<^verbatim>\<open>catch\<close> around the send of a candidate whose session was found
  connected. The two lists are the function's own \<^verbatim>\<open>processedUsers\<close> and
  \<^verbatim>\<open>failedUsers\<close>.
\<close>

definition deliver_pp ::
  "job_ctx \<Rightarrow> send_env \<Rightarrow> string \<Rightarrow> jsval list \<times> jsval list \<Rightarrow> world \<Rightarrow> (jsval list \<times> jsval list) \<times> world" where
  "deliver_pp ctx e username users w =
     (let (processedUsers, failedUsers) = users;
          w1 = say (Send username) w;
          (settled, ms) = race_timeout e;
          w2 = w1\<lparr>clock := clock w1 + ms, connected := connected w1 \<and> \<not> drop_during e\<rparr>
      in case settled of
           Inr success \<Rightarrow>
             (if success then
                (let (marked, w3) = markUserAsProcessed (has_collection ctx) (insert_throws e) username (owner ctx) w2;
                     userData = user_data username ''success'' (clock w3) []
                 in ((processedUsers @ [userData], failedUsers), jm_addProcessedUser ctx userData w3))
              else
                (let (marked, w3) = markUserAsProcessed (has_collection ctx) (insert_throws e) username (owner ctx) w2;
                     userData = user_data username ''failed'' (clock w3)
                                  [(''reason'', JStr ''Message sending failed'')]
                 in ((processedUsers, failedUsers @ [userData]), jm_addFailedUser ctx userData w3)))
         | Inl msg \<Rightarrow>
             (let userData = user_data username ''failed'' (clock w2) [(''error'', JStr msg)];
                  w3 = jm_addFailedUser ctx userData w2;
                  (marked, w4) = markUserAsProcessed (has_collection ctx) (insert_throws e) username (owner ctx) w3;
                  w5 = (if connection_error msg then w4\<lparr>connected := False\<rparr> else w4)
              in ((processedUsers, failedUsers @ [userData]), w5)))"

text \<open>The inner \<^verbatim>\<open>try\<close>/\<^verbatim>\<open>catch\<close> of the reconnection branch; both arms \<^verbatim>\<open>continue\<close>.\<close>

definition deliver_after_reconnect_pp ::
  "job_ctx \<Rightarrow> send_env \<Rightarrow> string \<Rightarrow> jsval list \<times> jsval list \<Rightarrow> world \<Rightarrow> (jsval list \<times> jsval list) \<times> world" where
  "deliver_after_reconnect_pp ctx e username users w =
     (let (processedUsers, failedUsers) = users;
          w1 = say (Send username) w;
          (settled, ms) = race_timeout e;
          w2 = w1\<lparr>clock := clock w1 + ms, connected := connected w1 \<and> \<not> drop_during e\<rparr>
      in case settled of
           Inr success \<Rightarrow>
             (if success then
                (let (marked, w3) = markUserAsProcessed (has_collection ctx) (insert_throws e) username (owner ctx) w2;
                     userData = user_data username ''success'' (clock w3) []
                 in ((processedUsers @ [userData], failedUsers), jm_addProcessedUser ctx userData w3))
              else
                (let (marked, w3) = markUserAsProcessed (has_collection ctx) (insert_throws e) username (owner ctx) w2;
                     userData = user_data username ''failed'' (clock w3)
                                  [(''reason'', JStr ''Message sending failed after reconnection'')]
                 in ((processedUsers, failedUsers @ [userData]), jm_addFailedUser ctx userData w3)))
         | Inl msg \<Rightarrow>
             (let userData = user_data username ''failed'' (clock w2) [(''error'', JStr msg)];
                  w3 = jm_addFailedUser ctx userData w2;
                  (marked, w4) = markUserAsProcessed (has_collection ctx) (insert_throws e) username (owner ctx) w3
              in ((processedUsers, failedUsers @ [userData]), w4)))"

text \<open>
  The call \<^verbatim>\<open>initBrowser(cookies, headless, browserWSEndpoint)\<close> of the reconnection
  branch evaluates its arguments first. These are the identifiers bound where it
  stands: the module's, the function's parameters and destructured options, and its
  variables. The job's endpoint is \<^verbatim>\<open>browserlessWSEndpoint\<close>;
  \<^verbatim>\<open>browserWSEndpoint\<close> is a parameter of \<^verbatim>\<open>initBrowser\<close> only, and no global
  of the runtime has that name. Reading an identifier that is not bound throws a
  \<^verbatim>\<open>ReferenceError\<close>.
\<close>

definition scope_pp :: "string list" where
  "scope_pp =
     [''puppeteer'', ''MongoClient'', ''fs'', ''tough'', ''dotenv'', ''mongoUri'', ''dbName'',
      ''collectionName'', ''connectToMongoDB'', ''loadCookies'', ''initBrowser'',
      ''checkNotifications'', ''autoScroll'', ''sleep'', ''loadSelectors'', ''sendWelcomeMessage'',
      ''markUserAsProcessed'', ''startProcessFollowers'', ''processFollowersJob'',
      ''processFollowers'', ''options'', ''jobId'', ''jobManager'', ''cookieFilePath'',
      ''cookieFile'', ''username'', ''welcomeMessage'', ''headless'', ''browserlessApiKey'',
      ''client'', ''browser'', ''page'', ''collection'', ''processedUsers'', ''failedUsers'',
      ''browserlessWSEndpoint'', ''originalUnhandledRejection'', ''cookies'', ''browserObj'',
      ''accountOwner'', ''newFollowers'', ''maxNotificationRetries'', ''lastProcessedIndex'',
      ''i'', ''newBrowserObj'']"

definition read_identifier :: "string list \<Rightarrow> string \<Rightarrow> string + unit" where
  "read_identifier scope name =
     (if name \<in> set scope then Inr () else Inl (name @ '' is not defined''))"

text \<open>
  The reconnection itself. \<open>remote\<close> stands for the truthiness of the third argument
  in case it is read.
\<close>

definition reconnect_pp :: "bool \<Rightarrow> (nat \<Rightarrow> attempt_env) \<Rightarrow> world \<Rightarrow> (halt + session option) \<times> world" where
  "reconnect_pp remote env w =
     (case read_identifier scope_pp ''cookies'' of
        Inl msg \<Rightarrow> (Inl (Thrown msg), w)
      | Inr u \<Rightarrow>
          (case read_identifier scope_pp ''headless'' of
             Inl msg \<Rightarrow> (Inl (Thrown msg), w)
           | Inr u \<Rightarrow>
               (case read_identifier scope_pp ''browserWSEndpoint'' of
                  Inl msg \<Rightarrow> (Inl (Thrown msg), w)
                | Inr u \<Rightarrow> initBrowser_pp env remote w)))"

text \<open>
  One turn of the \<^verbatim>\<open>for\<close> loop at index \<open>i\<close>. \<open>Inl\<close> is how the loop is left
  otherwise: the error thrown out of it, or the wait on a session establishment that
  never settles. The environment may have dropped the connection before the liveness
  check.
\<close>

definition loop_body_pp ::
  "job_ctx \<Rightarrow> job_env \<Rightarrow> bool \<Rightarrow> string list \<Rightarrow> nat \<Rightarrow> jsval list \<times> jsval list \<Rightarrow> world
     \<Rightarrow> (halt + unit) \<times> (jsval list \<times> jsval list) \<times> world" where
  "loop_body_pp ctx env remote newFollowers i users w =
     (let username = newFollowers ! i;
          e = steps env i;
          w0 = w\<lparr>connected := connected w \<and> \<not> drop_before e\<rparr>
      in if \<not> connected w0 then
           (let w1 = jm_updateJobStatus ctx ''reconnecting''
                       [(''warning'', JStr ''Connection to browser lost, attempting to reconnect...'')] w0
            in case reconnect_pp remote (reinit env i) w1 of
                 (Inr (Some newBrowserObj), w2) \<Rightarrow>
                   (let w3 = jm_updateJobStatus ctx ''sending_messages''
                               [(''info'', JStr ''Reconnected successfully, continuing message sending'')]
                               (w2\<lparr>connected := True\<rparr>);
                        (users', w4) = deliver_after_reconnect_pp ctx e username users w3
                    in (Inr (), users', w4))
               | (Inl Hung, w2) \<Rightarrow> (Inl Hung, users, w2)
               | (reconnectError, w2) \<Rightarrow>
                   (let msg = (case reconnectError of
                                 Inl (Thrown m) \<Rightarrow> m
                               | _ \<Rightarrow> ''Cannot read properties of undefined (reading 'browser')'');
                        completionMessage =
                          ''Process interrupted after '' @ show_nat (length (fst users))
                          @ '' successful messages. '' @ show_nat (length newFollowers - i)
                          @ '' followers were not processed.'';
                        w3 = jm_failJob ctx (''Connection error: '' @ msg @ ''. '' @ completionMessage) w2
                    in (Inl (Thrown completionMessage), users, w3)))
         else
           (let (users', w1) = deliver_pp ctx e username users w0;
                delayTime = (if connected w1 then 5000 + \<lfloor>math_random e * 5000\<rfloor> else 3000)
            in (Inr (), users', sleep delayTime w1)))"

function delivery_loop_pp ::
  "job_ctx \<Rightarrow> job_env \<Rightarrow> bool \<Rightarrow> string list \<Rightarrow> nat \<Rightarrow> jsval list \<times> jsval list \<Rightarrow> world
     \<Rightarrow> (halt + unit) \<times> (jsval list \<times> jsval list) \<times> world" where
  "delivery_loop_pp ctx env remote newFollowers i users w =
     (if i < length newFollowers then
        (case loop_body_pp ctx env remote newFollowers i users w of
           (Inl thrown, users', w') \<Rightarrow> (Inl thrown, users', w')
         | (Inr u, users', w') \<Rightarrow> delivery_loop_pp ctx env remote newFollowers (i + 1) users' w')
      else (Inr (), users, w))"
  by pat_completeness auto
termination
  by (relation "measure (\<lambda>(ctx, env, remote, newFollowers, i, users, w). length newFollowers - i)") auto

declare delivery_loop_pp.simps [simp del]


text \<open>
  The \<^verbatim>\<open>try\<close> block from discovery on. Beside what it returns or throws it hands
  out the two lists, which the \<^verbatim>\<open>catch\<close> reads.
\<close>

definition try_block_pp ::
  "job_ctx \<Rightarrow> job_env \<Rightarrow> bool \<Rightarrow> world
     \<Rightarrow> (halt + jsval list \<times> jsval list) \<times> (jsval list \<times> jsval list) \<times> world" where
  "try_block_pp ctx env remote w =
     (let w1 = jm_updateJobStatus ctx ''checking_notifications'' [] w;
          (newFollowers, w2) = notification_retry ctx (notification_warning ctx) (scans env) 0 w1;
          w3 = jm_setTotalFollowers ctx (length newFollowers) w2
      in if length newFollowers = 0 then
           (Inr ([], []), ([], []),
            jm_updateJobStatus ctx ''completed'' [(''message'', JStr ''No new followers to process'')] w3)
         else
           (let w4 = jm_updateJobStatus ctx ''sending_messages'' [] w3
            in case delivery_loop_pp ctx env remote newFollowers 0 ([], []) w4 of
                 (Inl thrown, users, w5) \<Rightarrow> (Inl thrown, users, w5)
               | (Inr u, users, w5) \<Rightarrow>
                   (let (processedUsers, failedUsers) = users;
                        totalSuccessful = length processedUsers;
                        totalFailed = length failedUsers;
                        w6 = jm_completeJob ctx
                               (JObj [(''processedUsers'', JArr processedUsers),
                                      (''failedUsers'', JArr failedUsers),
                                      (''summary'',
                                       JStr (''Processed '' @ show_nat (length newFollowers)
                                             @ '' followers: '' @ show_nat totalSuccessful
                                             @ '' successful, '' @ show_nat totalFailed @ '' failed''))])
                               w5
                    in (Inr users, users, w6))))"

text \<open>
  \<^verbatim>\<open>finally\<close>: the browser is closed if it is still connected. A \<^verbatim>\<open>try\<close>
  block stuck on a promise that never settles reaches neither \<^verbatim>\<open>catch\<close> nor
  \<^verbatim>\<open>finally\<close>.
\<close>

definition close_browser :: "world \<Rightarrow> world" where
  "close_browser w = w\<lparr>connected := False\<rparr>"

definition processFollowersJob_pp ::
  "job_ctx \<Rightarrow> job_env \<Rightarrow> bool \<Rightarrow> world \<Rightarrow> (halt + jsval list \<times> jsval list) \<times> world" where
  "processFollowersJob_pp ctx env remote w =
     (case try_block_pp ctx env remote w of
        (Inl Hung, users, w1) \<Rightarrow> (Inl Hung, w1)
      | (Inl (Thrown msg), users, w1) \<Rightarrow>
          (let errorMessage =
                 ''Error: '' @ msg @
                 (if length (fst users) > 0
                  then '' '' @ show_nat (length (fst users))
                       @ '' messages were successfully sent before the error.''
                  else []);
               w2 = jm_failJob ctx errorMessage w1
           in (Inl (Thrown msg), close_browser w2))
      | (Inr returned, users, w1) \<Rightarrow> (Inr returned, close_browser w1))"

text \<open>
  \<^verbatim>\<open>startProcessFollowers\<close> runs the job in the background with
  \<^verbatim>\<open>.catch(error => { jobManager.failJob(jobId, error.message) })\<close>.
\<close>

definition background_job_pp :: "job_ctx \<Rightarrow> job_env \<Rightarrow> bool \<Rightarrow> world \<Rightarrow> world" where
  "background_job_pp ctx env remote w =
     (case processFollowersJob_pp ctx env remote w of
        (Inl (Thrown msg), w1) \<Rightarrow> jm_failJob ctx msg w1
      | (Inl Hung, w1) \<Rightarrow> w1
      | (Inr returned, w1) \<Rightarrow> w1)"


subsection \<open>The delivery loop, Playwright variant\<close>

text \<open>
  One turn of \<^verbatim>\<open>for (const username of newFollowers)\<close>. The send is awaited
  without a timer: \<open>None\<close> is a send that never settles, and a job that waits for
  ever. The lists hold the bare user names.
\<close>

definition loop_body_pw ::
  "job_ctx \<Rightarrow> send_env \<Rightarrow> string \<Rightarrow> jsval list \<times> jsval list \<Rightarrow> world
     \<Rightarrow> ((jsval list \<times> jsval list) \<times> world) option" where
  "loop_body_pw ctx e username users w =
     (let (processedUsers, failedUsers) = users;
          w1 = say (Send username) w
      in case send_ms e of
           None \<Rightarrow> None
         | Some ms \<Rightarrow>
             (let w2 = w1\<lparr>clock := clock w1 + int ms\<rparr>;
                  (users', w4) =
                    (case send_result e of
                       Inr messageSent \<Rightarrow>
                         (if messageSent then
                            (let (marked, w3) = markUserAsProcessed (has_collection ctx) (insert_throws e)
                                                  username (owner ctx) w2
                             in if marked
                                then ((processedUsers @ [JStr username], failedUsers),
                                      guarded ctx (jm_addProcessedUser ctx (JStr username)) w3)
                                else ((processedUsers, failedUsers), w3))
                          else ((processedUsers, failedUsers @ [JStr username]),
                                guarded ctx (jm_addFailedUser ctx (JStr username)) w2))
                     | Inl err \<Rightarrow> ((processedUsers, failedUsers @ [JStr username]), w2));
                  waitTime = \<lfloor>math_random e * (60000 - 30000 + 1)\<rfloor> + 30000
              in Some (users', sleep waitTime w4)))"

fun delivery_loop_pw ::
  "job_ctx \<Rightarrow> job_env \<Rightarrow> nat \<Rightarrow> string list \<Rightarrow> jsval list \<times> jsval list \<Rightarrow> world
     \<Rightarrow> ((jsval list \<times> jsval list) \<times> world) option" where
  "delivery_loop_pw ctx env i [] users w = Some (users, w)"
| "delivery_loop_pw ctx env i (username # rest) users w =
     (case loop_body_pw ctx (steps env i) username users w of
        None \<Rightarrow> None
      | Some (users', w') \<Rightarrow> delivery_loop_pw ctx env (i + 1) rest users' w')"

text \<open>
  The job from discovery on. Nothing in this part throws to the function's
  \<^verbatim>\<open>catch\<close>; its \<^verbatim>\<open>finally\<close> closes the browser.
\<close>

definition processFollowersJob_pw ::
  "job_ctx \<Rightarrow> job_env \<Rightarrow> world \<Rightarrow> ((jsval list \<times> jsval list) \<times> world) option" where
  "processFollowersJob_pw ctx env w =
     (let w1 = guarded ctx (jm_updateJobStatus ctx ''checking_notifications'' []) w;
          (newFollowers, w2) =
             notification_retry ctx (guarded ctx (notification_warning ctx)) (scans env) 0 w1;
          w3 = guarded ctx (jm_setTotalFollowers ctx (length newFollowers)) w2
      in if length newFollowers = 0 then
           Some (([], []),
                 close_browser
                   (guarded ctx (jm_updateJobStatus ctx ''completed''
                                   [(''message'', JStr ''No new followers to process'')]) w3))
         else
           (let w4 = guarded ctx (jm_updateJobStatus ctx ''sending_messages'' []) w3
            in case delivery_loop_pw ctx env 0 newFollowers ([], []) w4 of
                 None \<Rightarrow> None
               | Some (users, w5) \<Rightarrow>
                   Some (users,
                         close_browser
                           (guarded ctx (jm_updateJobStatus ctx ''completed''
                              [(''message'',
                                JStr (''Processed '' @ show_nat (length (fst users))
                                      @ '' users, failed to process '' @ show_nat (length (snd users))
                                      @ '' users''))]) w5))))"


section \<open>Sample inputs\<close>

text \<open>A table with one job as \<^verbatim>\<open>createJob\<close> leaves it.\<close>

definition sample_jobs :: store where
  "sample_jobs = snd (createJob [] 1000 ''j1'' (JObj [(''username'', JStr ''acme'')]))"


text \<open>A run of calls on that job.\<close>

definition sample_calls :: "store_call list" where
  "sample_calls =
     [SetTotalFollowers ''j1'' (JNum 5),
      AddProcessedUser ''j1'' (JStr ''ann''),
      UpdateJobStatus 2000 ''j1'' (JStr ''sending_messages'') [(''info'', JStr ''on its way'')],
      AddFailedUser ''j1'' (JStr ''bob'')]"


text \<open>
  A job that carries its dates: \<^verbatim>\<open>created\<close> is a date and \<^verbatim>\<open>completed\<close> is
  a date or not set. The time its age is counted from.
\<close>

definition has_dates :: "jsobj \<Rightarrow> bool" where
  "has_dates job \<longleftrightarrow>
     is_date (get_prop job ''created'') \<and>
     (get_prop job ''completed'' = JUndefined \<or> is_date (get_prop job ''completed''))"

definition reference_time :: "jsobj \<Rightarrow> int" where
  "reference_time job =
     (case get_prop job ''completed'' of
        JDate t \<Rightarrow> t
      | _ \<Rightarrow> (case get_prop job ''created'' of JDate t \<Rightarrow> t | _ \<Rightarrow> 0))"

text \<open>Four jobs for a sweep at time 100000000 (24 hours are 86400000 ms).\<close>

definition sample_old :: jsobj where
  "sample_old = [(''id'', JStr ''old''), (''status'', JStr ''completed''), (''created'', JDate 99999000),
                 (''completed'', JDate 13599999)]"

definition sample_stuck :: jsobj where
  "sample_stuck = [(''id'', JStr ''stuck''), (''status'', JStr ''sending_messages''), (''created'', JDate 1000)]"

definition sample_young :: jsobj where
  "sample_young = [(''id'', JStr ''young''), (''status'', JStr ''failed''), (''created'', JDate 1000),
                   (''completed'', JDate 99000000)]"

definition sample_edge :: jsobj where
  "sample_edge = [(''id'', JStr ''edge''), (''status'', JStr ''completed''), (''created'', JDate 1000),
                  (''completed'', JDate 13600000)]"

definition sample_table :: store where
  "sample_table = [(''old'', sample_old), (''stuck'', sample_stuck), (''young'', sample_young),
                   (''edge'', sample_edge)]"


text \<open>A world for the bot: the sample job, one processed record, a connected browser.\<close>

definition sample_world :: world where
  "sample_world =
     \<lparr>jobStore = sample_jobs, clock = 1000, records = [(''old'', ''acme'', 5)],
      connected = True, trace = []\<rparr>"

text \<open>
  A notifications page: \<^verbatim>\<open>ann\<close> twice, the processed \<^verbatim>\<open>old\<close>, an element that
  is no follow notification, one without a link, \<^verbatim>\<open>bob\<close> and \<^verbatim>\<open>cy\<close>. The
  lookup of \<^verbatim>\<open>bob\<close> throws in the second environment.
\<close>

definition sample_page :: "notif list" where
  "sample_page =
     [Notif True (Some ''ann''), Notif True (Some ''old''), Notif False (Some ''zed''),
      Notif True (Some ''bob''), Notif True (Some ''ann''), Notif True None,
      Notif True (Some ''cy'')]"

definition sample_scan :: scan_env where
  "sample_scan = \<lparr>feed = Inr sample_page, find_throws = (\<lambda>u. False)\<rparr>"

definition sample_scan_db_error :: scan_env where
  "sample_scan_db_error = \<lparr>feed = Inr sample_page, find_throws = (\<lambda>u. u = ''old'')\<rparr>"


text \<open>
  What a trace says about session establishment: the attempts announced, and the
  pauses before a retry, each the announcement of the wait, the sleep that follows it
  and the attempt that follows the sleep. A pause is listed with the time slept and
  the number of the attempt it leads to.
\<close>

fun attempts_of :: "event list \<Rightarrow> nat list" where
  "attempts_of [] = []"
| "attempts_of (InitAttempt k # evs) = k # attempts_of evs"
| "attempts_of (ev # evs) = attempts_of evs"

fun retry_pauses :: "event list \<Rightarrow> (int \<times> nat) list" where
  "retry_pauses (RetryWait delayMs # Sleep ms # InitAttempt k # evs) =
     (ms, k) # retry_pauses (InitAttempt k # evs)"
| "retry_pauses (ev # evs) = retry_pauses evs"
| "retry_pauses [] = []"

text \<open>
  A browser that comes up, one whose remote endpoint hangs up, and one on which
  \<^verbatim>\<open>browser.newPage()\<close> is never answered.
\<close>

definition sample_attempt_ok :: attempt_env where
  "sample_attempt_ok =
     \<lparr>connect = None, new_page = Resolves, gotos = (\<lambda>k. None), set_cookie = Resolves,
      inner_close_pends = False, outer_close_pends = False\<rparr>"




text \<open>What the table says about the job of a context.\<close>

definition job_field :: "world \<Rightarrow> job_ctx \<Rightarrow> string \<Rightarrow> jsval" where
  "job_field w ctx key = field_of (jobStore w) (job_id ctx) key"

definition job_processed :: "world \<Rightarrow> job_ctx \<Rightarrow> jsval" where
  "job_processed w ctx = progress_of (jobStore w) (job_id ctx) ''processed''"

text \<open>
  The detail a failed-user entry of the Puppeteer variant carries: a \<^verbatim>\<open>reason\<close>
  when the send returned false, the \<^verbatim>\<open>error\<close> message when it threw or the timer
  won the race.
\<close>

fun failure_detail :: "string + bool \<Rightarrow> jsobj" where
  "failure_detail (Inr success) = [(''reason'', JStr ''Message sending failed'')]"
| "failure_detail (Inl msg) = [(''error'', JStr msg)]"

text \<open>The job of the sample world, with a collection and a job table.\<close>

definition sample_ctx :: job_ctx where
  "sample_ctx = \<lparr>job_id = ''j1'', owner = ''acme'', has_collection = True, job_manager = True\<rparr>"

text \<open>
  Sends: one that succeeds in four seconds, one that returns false, one that never
  settles, one during which the connection drops. \<^verbatim>\<open>Math.random()\<close> gives 1/2.
\<close>

definition sample_send :: send_env where
  "sample_send =
     \<lparr>drop_before = False, send_result = Inr True, send_ms = Some 4000, drop_during = False,
      insert_throws = False, math_random = 1 / 2\<rparr>"

definition sample_send_false :: send_env where
  "sample_send_false = sample_send\<lparr>send_result := Inr False\<rparr>"

definition sample_send_hangs :: send_env where
  "sample_send_hangs = sample_send\<lparr>send_ms := None\<rparr>"

definition sample_send_drops :: send_env where
  "sample_send_drops = sample_send\<lparr>drop_during := True\<rparr>"

definition sample_env :: "send_env \<Rightarrow> job_env" where
  "sample_env e =
     \<lparr>scans = (\<lambda>k. sample_scan), steps = (\<lambda>i. if i = 1 then e else sample_send),
      reinit = (\<lambda>i k. sample_attempt_ok)\<rparr>"


text \<open>The sleeps of a trace.\<close>

fun sleeps_of :: "event list \<Rightarrow> int list" where
  "sleeps_of [] = []"
| "sleeps_of (Sleep ms # evs) = ms # sleeps_of evs"
| "sleeps_of (ev # evs) = sleeps_of evs"


text \<open>
  A candidate before whom the connection is lost, a notifications page that cannot be
  loaded, and the three candidates of the sample page.
\<close>

definition sample_send_lost :: send_env where
  "sample_send_lost = sample_send\<lparr>drop_before := True\<rparr>"

definition sample_scan_throws :: scan_env where
  "sample_scan_throws = \<lparr>feed = Inl ''net::ERR_TIMED_OUT'', find_throws = (\<lambda>u. False)\<rparr>"

definition sample_env_blind :: job_env where
  "sample_env_blind = (sample_env sample_send)\<lparr>scans := (\<lambda>k. sample_scan_throws)\<rparr>"

definition sample_followers :: "string list" where
  "sample_followers = [''ann'', ''bob'', ''cy'']"


section \<open>Properties of the Job Store\<close>

lemma get_prop_set_prop:
  "get_prop (set_prop k v obj) k' = (if k' = k then v else get_prop obj k')"
  by (simp add: get_prop_def set_prop_def update_conv')

lemma map_of_store_update:
  "map_of (AList.update jobId job jobs) other = (if other = jobId then Some job else map_of jobs other)"
  by (simp add: update_conv')

lemma field_of_store_update:
  "field_of (AList.update jobId job jobs) other key =
     (if other = jobId then get_prop job key else field_of jobs other key)"
  by (simp add: field_of_def map_of_store_update)

lemma get_prop_assign:
  "get_prop (assign k v obj) k' = (if k' = k \<and> k \<noteq> ''__proto__'' then v else get_prop obj k')"
  by (simp add: assign_def get_prop_set_prop)

lemma get_prop_fold_copy:
  "get_prop (fold (\<lambda>key j. assign key (get_prop data key) j) ks job) k =
     (if k \<in> set ks \<and> k \<noteq> ''__proto__'' then get_prop data k else get_prop job k)"
  by (induction ks arbitrary: job) (auto simp: get_prop_assign)

lemma get_prop_copy_keys:
  "get_prop (copy_keys data job) k =
     (if k \<in> set (object_keys data) \<and> k \<noteq> ''__proto__'' then get_prop data k else get_prop job k)"
  by (simp add: copy_keys_def get_prop_fold_copy)

lemma assign_own_value:
  "key \<in> set (object_keys job) \<Longrightarrow> assign key (get_prop job key) job = job"
proof -
  assume "key \<in> set (object_keys job)"
  then obtain b where "(key, b) \<in> set job"
    by (auto simp: object_keys_def)
  then obtain v where "map_of job key = Some v"
    using weak_map_of_SomeI by fastforce
  then show ?thesis
    by (simp add: assign_def set_prop_def get_prop_def update_triv)
qed

lemma fold_assign_own:
  "set ks \<subseteq> set (object_keys job) \<Longrightarrow>
   fold (\<lambda>key j. assign key (get_prop j key) j) ks job = job"
  by (induction ks) (simp_all add: assign_own_value)

lemma copy_keys_onto_itself_same:
  "copy_keys_onto_itself job = job"
  by (simp add: copy_keys_onto_itself_def fold_assign_own)

lemma field_of_completeJob:
  "map_of jobs jobId = Some job \<Longrightarrow>
   field_of (snd (completeJob jobs now jobId r)) jobId key =
     (if key = ''completed'' then JDate now else if key = ''result'' then default_result r
      else if key = ''status'' then JStr ''completed'' else field_of jobs jobId key)"
  by (simp add: completeJob_def Let_def field_of_store_update get_prop_set_prop)
     (simp add: field_of_def)

lemma field_of_failJob:
  "map_of jobs jobId = Some job \<Longrightarrow>
   field_of (snd (failJob jobs now jobId e)) jobId key =
     (if key = ''completed'' then JDate now else if key = ''error'' then e
      else if key = ''status'' then JStr ''failed'' else field_of jobs jobId key)"
  by (simp add: failJob_def Let_def field_of_store_update get_prop_set_prop)
     (simp add: field_of_def)

lemma field_of_updateJobStatus:
  "map_of jobs jobId = Some job \<Longrightarrow>
   field_of (snd (updateJobStatus jobs now jobId status data)) jobId key =
     (if key \<in> set (object_keys data) \<and> key \<noteq> ''__proto__'' then get_prop data key
      else if key = ''updated'' then JDate now
      else if key = ''status'' then status else field_of jobs jobId key)"
  by (simp add: updateJobStatus_def Let_def field_of_store_update get_prop_copy_keys get_prop_set_prop)
     (simp add: field_of_def)

lemma sample_job_known:
  "map_of sample_jobs ''j1'' =
     Some [(''id'', JStr ''j1''), (''status'', JStr ''queued''), (''created'', JDate 1000),
           (''params'', JObj [(''username'', JStr ''acme'')]), (''result'', JNull),
           (''processedUsers'', JArr []), (''failedUsers'', JArr []), (''error'', JNull),
           (''progress'', JObj [(''total'', JNum 0), (''processed'', JNum 0)])]"
  by (simp add: sample_jobs_def createJob_def)

text \<open>
  C10, as the code has it. For a known job and a patch \<open>data\<close> that is an object of
  its own and has no key \<^verbatim>\<open>__proto__\<close>, \<^verbatim>\<open>updateJobStatus(jobId, status, data)\<close>
  returns true and leaves the job with every key of \<open>data\<close> copied onto it,
  \<^verbatim>\<open>updated\<close> set to the current time and \<^verbatim>\<open>status\<close> set to the argument (the
  copy comes last, so a key \<^verbatim>\<open>status\<close> or \<^verbatim>\<open>updated\<close> of \<open>data\<close> wins); every
  other field of the job and every other job of the table is as before. No other key
  is exempt: \<^verbatim>\<open>id\<close>, \<^verbatim>\<open>params\<close> and \<^verbatim>\<open>progress\<close> are overwritten like any
  other. When the patch is the job object itself, the copy changes nothing: the
  status is the argument, \<^verbatim>\<open>updated\<close> the current time, and the rest is as before.
\<close>

theorem updateJobStatus_frame:
  assumes "map_of jobs jobId = Some job"
    and "''__proto__'' \<notin> set (object_keys data)"
  shows "fst (updateJobStatus jobs now jobId status data) = True \<and>
         (\<forall>key. field_of (snd (updateJobStatus jobs now jobId status data)) jobId key =
               (if key \<in> set (object_keys data) then get_prop data key
                else if key = ''updated'' then JDate now
                else if key = ''status'' then status
                else get_prop job key)) \<and>
         (\<forall>other. other \<noteq> jobId \<longrightarrow>
            map_of (snd (updateJobStatus jobs now jobId status data)) other = map_of jobs other) \<and>
         fst (updateJobStatus_aliased jobs now jobId status) = True \<and>
         (\<forall>key. field_of (snd (updateJobStatus_aliased jobs now jobId status)) jobId key =
               (if key = ''updated'' then JDate now
                else if key = ''status'' then status
                else get_prop job key)) \<and>
         (\<forall>other. other \<noteq> jobId \<longrightarrow>
            map_of (snd (updateJobStatus_aliased jobs now jobId status)) other = map_of jobs other)"
proof -
  have "fst (updateJobStatus jobs now jobId status data) = True"
    using assms by (simp add: updateJobStatus_def Let_def)
  moreover have "\<forall>other. other \<noteq> jobId \<longrightarrow>
            map_of (snd (updateJobStatus jobs now jobId status data)) other = map_of jobs other"
    using assms by (simp add: updateJobStatus_def Let_def map_of_store_update)
  moreover have own: "field_of jobs jobId key = get_prop job key" for key
    using assms by (simp add: field_of_def)
  moreover have "field_of (snd (updateJobStatus jobs now jobId status data)) jobId key =
               (if key \<in> set (object_keys data) then get_prop data key
                else if key = ''updated'' then JDate now
                else if key = ''status'' then status
                else get_prop job key)" for key
    using assms by (auto simp add: field_of_updateJobStatus own)
  moreover have "fst (updateJobStatus_aliased jobs now jobId status) = True"
    using assms by (simp add: updateJobStatus_aliased_def Let_def)
  moreover have "\<forall>other. other \<noteq> jobId \<longrightarrow>
            map_of (snd (updateJobStatus_aliased jobs now jobId status)) other = map_of jobs other"
    using assms by (simp add: updateJobStatus_aliased_def Let_def map_of_store_update)
  moreover have "field_of (snd (updateJobStatus_aliased jobs now jobId status)) jobId key =
               (if key = ''updated'' then JDate now
                else if key = ''status'' then status
                else get_prop job key)" for key
    using assms
    by (simp add: updateJobStatus_aliased_def Let_def field_of_store_update
          copy_keys_onto_itself_same get_prop_set_prop)
  ultimately show ?thesis
    by simp
qed

text \<open>
  The theorem at the sample job and a patch that names \<^verbatim>\<open>id\<close> and
  \<^verbatim>\<open>progress\<close>: both are overwritten, \<^verbatim>\<open>created\<close> is kept. With the job
  itself for a patch the status is the new one.
\<close>

theorem updateJobStatus_frame_witness:
  "map_of sample_jobs ''j1'' \<noteq> None \<and>
   ''__proto__'' \<notin> set (object_keys [(''id'', JStr ''other''), (''progress'', JNull)]) \<and>
   fst (updateJobStatus sample_jobs 2000 ''j1'' (JStr ''running'')
          [(''id'', JStr ''other''), (''progress'', JNull)]) = True \<and>
   field_of (snd (updateJobStatus sample_jobs 2000 ''j1'' (JStr ''running'')
          [(''id'', JStr ''other''), (''progress'', JNull)])) ''j1'' ''id'' = JStr ''other'' \<and>
   field_of (snd (updateJobStatus sample_jobs 2000 ''j1'' (JStr ''running'')
          [(''id'', JStr ''other''), (''progress'', JNull)])) ''j1'' ''progress'' = JNull \<and>
   field_of (snd (updateJobStatus sample_jobs 2000 ''j1'' (JStr ''running'')
          [(''id'', JStr ''other''), (''progress'', JNull)])) ''j1'' ''status'' = JStr ''running'' \<and>
   field_of (snd (updateJobStatus sample_jobs 2000 ''j1'' (JStr ''running'')
          [(''id'', JStr ''other''), (''progress'', JNull)])) ''j1'' ''created'' = JDate 1000 \<and>
   field_of (snd (updateJobStatus_aliased sample_jobs 2000 ''j1'' (JStr ''running''))) ''j1'' ''status''
     = JStr ''running'' \<and>
   field_of (snd (updateJobStatus_aliased sample_jobs 2000 ''j1'' (JStr ''running''))) ''j1'' ''id''
     = JStr ''j1''"
  using updateJobStatus_frame [OF sample_job_known, of "[(''id'', JStr ''other''), (''progress'', JNull)]"
          2000 "JStr ''running''"]
  by (simp add: sample_job_known object_keys_def get_prop_def)

text \<open>
  C10 as stated fails at the key \<^verbatim>\<open>__proto__\<close>. The patch is what
  \<^verbatim>\<open>JSON.parse('{"__proto__": "x"}')\<close> yields, an object with one own key. After
  the call the job has no property of that name, and it is what the call with an
  empty patch leaves: the key has not been copied.
\<close>

theorem updateJobStatus_proto_counterexample:
  "object_keys [(''__proto__'', JStr ''x'')] = [''__proto__''] \<and>
   get_prop [(''__proto__'', JStr ''x'')] ''__proto__'' = JStr ''x'' \<and>
   fst (updateJobStatus sample_jobs 2000 ''j1'' (JStr ''running'') [(''__proto__'', JStr ''x'')]) = True \<and>
   field_of (snd (updateJobStatus sample_jobs 2000 ''j1'' (JStr ''running'') [(''__proto__'', JStr ''x'')]))
     ''j1'' ''__proto__'' = JUndefined \<and>
   map_of (snd (updateJobStatus sample_jobs 2000 ''j1'' (JStr ''running'') [(''__proto__'', JStr ''x'')]))
     ''j1'' =
     Some [(''id'', JStr ''j1''), (''status'', JStr ''running''), (''created'', JDate 1000),
           (''params'', JObj [(''username'', JStr ''acme'')]), (''result'', JNull),
           (''processedUsers'', JArr []), (''failedUsers'', JArr []), (''error'', JNull),
           (''progress'', JObj [(''total'', JNum 0), (''processed'', JNum 0)]),
           (''updated'', JDate 2000)] \<and>
   snd (updateJobStatus sample_jobs 2000 ''j1'' (JStr ''running'') [(''__proto__'', JStr ''x'')])
     = snd (updateJobStatus sample_jobs 2000 ''j1'' (JStr ''running'') [])"
  by (simp add: sample_jobs_def createJob_def updateJobStatus_def copy_keys_def assign_def
        object_keys_def field_of_def get_prop_def set_prop_def)

text \<open>
  C2, as the code has it. \<^verbatim>\<open>completeJob\<close> sets the status to
  \<^verbatim>\<open>completed\<close> and \<^verbatim>\<open>result\<close> to its argument (to an empty object when the
  argument is \<^verbatim>\<open>undefined\<close>) and leaves \<^verbatim>\<open>error\<close> as it was; \<^verbatim>\<open>failJob\<close> sets the status to \<^verbatim>\<open>failed\<close> and \<^verbatim>\<open>error\<close> to
  its argument and leaves \<^verbatim>\<open>result\<close> as it was; \<^verbatim>\<open>updateJobStatus\<close> sets the
  status to its argument, or to the \<^verbatim>\<open>status\<close> of its patch when the patch names
  one, and touches \<^verbatim>\<open>result\<close> and \<^verbatim>\<open>error\<close> only when its patch names them. None of the three looks at the status the job has: a job that is
  completed or failed is written like any other.
\<close>

theorem terminal_payloads:
  assumes "map_of jobs jobId = Some job"
  shows "field_of (snd (completeJob jobs now jobId r)) jobId ''status'' = JStr ''completed'' \<and>
         field_of (snd (completeJob jobs now jobId r)) jobId ''result'' = default_result r \<and>
         field_of (snd (completeJob jobs now jobId r)) jobId ''error'' = field_of jobs jobId ''error'' \<and>
         field_of (snd (failJob jobs now jobId e)) jobId ''status'' = JStr ''failed'' \<and>
         field_of (snd (failJob jobs now jobId e)) jobId ''error'' = e \<and>
         field_of (snd (failJob jobs now jobId e)) jobId ''result'' = field_of jobs jobId ''result'' \<and>
         field_of (snd (updateJobStatus jobs now jobId status data)) jobId ''status'' =
           (if ''status'' \<in> set (object_keys data) then get_prop data ''status'' else status) \<and>
         field_of (snd (updateJobStatus jobs now jobId status data)) jobId ''result'' =
           (if ''result'' \<in> set (object_keys data) then get_prop data ''result''
            else field_of jobs jobId ''result'') \<and>
         field_of (snd (updateJobStatus jobs now jobId status data)) jobId ''error'' =
           (if ''error'' \<in> set (object_keys data) then get_prop data ''error''
            else field_of jobs jobId ''error'')"
  using assms
  by (simp add: field_of_completeJob field_of_failJob field_of_updateJobStatus)

text \<open>
  The theorem at the sample job, whose \<^verbatim>\<open>result\<close> and \<^verbatim>\<open>error\<close> are null:
  \<^verbatim>\<open>completeJob\<close> with an empty object leaves the result alone populated,
  \<^verbatim>\<open>failJob\<close> with a message the error.
\<close>

theorem terminal_payloads_witness:
  "map_of sample_jobs ''j1'' \<noteq> None \<and>
   field_of (snd (completeJob sample_jobs 2000 ''j1'' (JObj []))) ''j1'' ''status'' = JStr ''completed'' \<and>
   field_of (snd (completeJob sample_jobs 2000 ''j1'' (JObj []))) ''j1'' ''result'' = JObj [] \<and>
   field_of (snd (completeJob sample_jobs 2000 ''j1'' (JObj []))) ''j1'' ''error'' = JNull \<and>
   field_of (snd (failJob sample_jobs 2000 ''j1'' (JStr ''boom''))) ''j1'' ''status'' = JStr ''failed'' \<and>
   field_of (snd (failJob sample_jobs 2000 ''j1'' (JStr ''boom''))) ''j1'' ''error'' = JStr ''boom'' \<and>
   field_of (snd (failJob sample_jobs 2000 ''j1'' (JStr ''boom''))) ''j1'' ''result'' = JNull"
  using terminal_payloads [OF sample_job_known, of 2000 "JObj []" "JStr ''boom''" JNull "[]"]
  by (simp add: sample_job_known field_of_def get_prop_def default_result_def)

text \<open>
  C2 as stated fails. A failed job that is then completed changes its status and has
  both \<^verbatim>\<open>result\<close> and \<^verbatim>\<open>error\<close> populated; a job completed through
  \<^verbatim>\<open>updateJobStatus\<close>, as the job does when it finds no followers, has neither.
\<close>

theorem terminal_exclusivity_counterexample:
  "field_of (snd (failJob sample_jobs 2000 ''j1'' (JStr ''boom''))) ''j1'' ''status'' = JStr ''failed'' \<and>
   field_of (snd (completeJob (snd (failJob sample_jobs 2000 ''j1'' (JStr ''boom''))) 3000 ''j1'' (JObj [])))
     ''j1'' ''status'' = JStr ''completed'' \<and>
   field_of (snd (completeJob (snd (failJob sample_jobs 2000 ''j1'' (JStr ''boom''))) 3000 ''j1'' (JObj [])))
     ''j1'' ''result'' = JObj [] \<and>
   field_of (snd (completeJob (snd (failJob sample_jobs 2000 ''j1'' (JStr ''boom''))) 3000 ''j1'' (JObj [])))
     ''j1'' ''error'' = JStr ''boom'' \<and>
   field_of (snd (updateJobStatus sample_jobs 2000 ''j1'' (JStr ''completed'')
                    [(''message'', JStr ''No new followers to process'')])) ''j1'' ''status''
     = JStr ''completed'' \<and>
   field_of (snd (updateJobStatus sample_jobs 2000 ''j1'' (JStr ''completed'')
                    [(''message'', JStr ''No new followers to process'')])) ''j1'' ''result'' = JNull \<and>
   field_of (snd (updateJobStatus sample_jobs 2000 ''j1'' (JStr ''completed'')
                    [(''message'', JStr ''No new followers to process'')])) ''j1'' ''error'' = JNull"
  by (simp add: sample_jobs_def createJob_def failJob_def completeJob_def default_result_def
        updateJobStatus_def copy_keys_def assign_def object_keys_def field_of_def get_prop_def set_prop_def)

lemma progress_of_store_update:
  "progress_of (AList.update jobId job jobs) other field =
     (if other = jobId
      then (case get_prop job ''progress'' of JObj ps \<Rightarrow> get_prop ps field | _ \<Rightarrow> JUndefined)
      else progress_of jobs other field)"
  by (simp add: progress_of_def field_of_store_update)

lemma progress_of_number:
  "progress_of jobs jobId field = JNum n \<Longrightarrow>
     \<exists>job ps. map_of jobs jobId = Some job \<and> get_prop job ''progress'' = JObj ps \<and>
              get_prop ps field = JNum n"
  by (auto simp: progress_of_def field_of_def split: option.splits jsval.splits)

lemma processed_add_user:
  assumes "progress_of jobs jobId ''processed'' = JNum n"
  shows "progress_of (snd (add_user listName jobs jobId' userData)) jobId ''processed'' = JNum n \<or>
         (jobId' = jobId \<and>
          progress_of (snd (add_user listName jobs jobId' userData)) jobId ''processed'' = JNum (n + 1))"
proof (cases "jobId' = jobId")
  case True
  from progress_of_number [OF assms] obtain job ps where
    j: "map_of jobs jobId = Some job" "get_prop job ''progress'' = JObj ps"
       "get_prop ps ''processed'' = JNum n"
    by blast
  show ?thesis
  proof (cases "get_prop job listName")
    case (JArr xs)
    show ?thesis
    proof (cases "listName = ''progress''")
      case True
      with JArr j show ?thesis by simp
    next
      case False
      with \<open>jobId' = jobId\<close> j JArr show ?thesis
        by (simp add: add_user_def set_progress_def get_prop_set_prop progress_of_store_update)
    qed
  qed (use True j assms in \<open>simp_all add: add_user_def\<close>)
next
  case False
  then show ?thesis using assms
    by (auto simp: add_user_def progress_of_store_update split: option.splits sum.splits)
qed

lemma processed_setTotalFollowers:
  assumes "progress_of jobs jobId ''processed'' = JNum n"
  shows "progress_of (snd (setTotalFollowers jobs jobId' t)) jobId ''processed'' = JNum n"
proof (cases "jobId' = jobId")
  case True
  from progress_of_number [OF assms] obtain job ps where
    j: "map_of jobs jobId = Some job" "get_prop job ''progress'' = JObj ps"
       "get_prop ps ''processed'' = JNum n"
    by blast
  with True show ?thesis
    by (simp add: setTotalFollowers_def set_progress_def get_prop_set_prop progress_of_store_update)
next
  case False
  then show ?thesis using assms
    by (auto simp: setTotalFollowers_def progress_of_store_update split: option.splits sum.splits)
qed

lemma progress_of_completeJob:
  "progress_of (snd (completeJob jobs now jobId' r)) jobId field = progress_of jobs jobId field"
  by (auto simp: completeJob_def Let_def progress_of_def field_of_store_update get_prop_set_prop
           split: option.splits) (simp add: field_of_def)

lemma progress_of_failJob:
  "progress_of (snd (failJob jobs now jobId' r)) jobId field = progress_of jobs jobId field"
  by (auto simp: failJob_def Let_def progress_of_def field_of_store_update get_prop_set_prop
           split: option.splits) (simp add: field_of_def)

lemma progress_of_updateJobStatus:
  "\<not> (jobId' = jobId \<and> ''progress'' \<in> set (object_keys data)) \<Longrightarrow>
   progress_of (snd (updateJobStatus jobs now jobId' status data)) jobId field =
     progress_of jobs jobId field"
  by (auto simp: updateJobStatus_def Let_def progress_of_def field_of_store_update get_prop_set_prop
                 get_prop_copy_keys split: option.splits) (simp_all add: field_of_def)

lemma processed_store_step:
  assumes "progress_of jobs jobId ''processed'' = JNum n" and "\<not> patches_progress jobId c"
  shows "\<exists>m. progress_of (store_step c jobs) jobId ''processed'' = JNum m \<and> n \<le> m \<and>
             m \<le> n + (if adds_user jobId c then 1 else 0)"
proof (cases c)
  case (AddProcessedUser j u)
  with processed_add_user [OF assms(1), of "''processedUsers''" j u] show ?thesis
    by (auto simp: addProcessedUser_def)
next
  case (AddFailedUser j u)
  with processed_add_user [OF assms(1), of "''failedUsers''" j u] show ?thesis
    by (auto simp: addFailedUser_def)
next
  case (SetTotalFollowers j t)
  with processed_setTotalFollowers [OF assms(1)] show ?thesis by simp
next
  case (UpdateJobStatus now j s d)
  with assms progress_of_updateJobStatus [of j jobId d jobs now s "''processed''"]
  show ?thesis by simp
next
  case (CompleteJob now j r)
  with assms show ?thesis by (simp add: progress_of_completeJob)
next
  case (FailJob now j r)
  with assms show ?thesis by (simp add: progress_of_failJob)
qed

text \<open>
  C3, as the code has it. Take a job whose \<^verbatim>\<open>progress.processed\<close> is a number and
  any run of \<^verbatim>\<open>addProcessedUser\<close>, \<^verbatim>\<open>addFailedUser\<close>,
  \<^verbatim>\<open>setTotalFollowers\<close>, \<^verbatim>\<open>updateJobStatus\<close>, \<^verbatim>\<open>completeJob\<close> and
  \<^verbatim>\<open>failJob\<close> calls, on this job or others, in which no \<^verbatim>\<open>updateJobStatus\<close>
  on this job carries a patch with the key \<^verbatim>\<open>progress\<close>. Then
  \<^verbatim>\<open>progress.processed\<close> is still a number, it has not decreased, and it has grown
  by at most one for each add call on the job. The table never compares it with
  \<^verbatim>\<open>progress.total\<close>.
\<close>

theorem processed_monotone:
  assumes "progress_of jobs jobId ''processed'' = JNum n"
      and "\<forall>c \<in> set calls. \<not> patches_progress jobId c"
  shows "\<exists>m. progress_of (run_calls calls jobs) jobId ''processed'' = JNum m \<and> n \<le> m \<and>
             m \<le> n + int (length (filter (adds_user jobId) calls))"
  using assms unfolding run_calls_def
proof (induction calls arbitrary: jobs n)
  case Nil
  then show ?case by simp
next
  case (Cons c calls)
  from Cons.prems have c: "\<not> patches_progress jobId c" by simp
  from processed_store_step [OF Cons.prems(1) c] obtain k where
    k: "progress_of (store_step c jobs) jobId ''processed'' = JNum k" "n \<le> k"
       "k \<le> n + (if adds_user jobId c then 1 else 0)" by blast
  from Cons.prems have rest: "\<forall>c \<in> set calls. \<not> patches_progress jobId c" by simp
  from Cons.IH [OF k(1) rest] obtain m where
    m: "progress_of (fold store_step calls (store_step c jobs)) jobId ''processed'' = JNum m"
       "k \<le> m" "m \<le> k + int (length (filter (adds_user jobId) calls))" by blast
  with k show ?case by (auto split: if_splits)
qed

lemma sample_calls_eval:
  "progress_of (run_calls sample_calls sample_jobs) ''j1'' ''processed'' = JNum 2"
  "progress_of (run_calls sample_calls sample_jobs) ''j1'' ''total'' = JNum 5"
  by (simp_all add: sample_calls_def run_calls_def sample_jobs_def createJob_def
        addProcessedUser_def addFailedUser_def add_user_def setTotalFollowers_def set_progress_def
        updateJobStatus_def copy_keys_def assign_def object_keys_def progress_of_def field_of_def
        get_prop_def set_prop_def)

text \<open>
  The theorem at the sample job and a run that sets the total to 5, adds a processed
  and a failed user and updates the status: \<^verbatim>\<open>processed\<close> goes from 0 to 2.
\<close>

theorem processed_monotone_witness:
  "progress_of sample_jobs ''j1'' ''processed'' = JNum 0 \<and>
   list_all (\<lambda>c. \<not> patches_progress ''j1'' c) sample_calls \<and>
   progress_of (run_calls sample_calls sample_jobs) ''j1'' ''processed'' = JNum 2 \<and>
   length (filter (adds_user ''j1'') sample_calls) = 2"
proof -
  have h1: "progress_of sample_jobs ''j1'' ''processed'' = JNum 0"
    by (simp add: sample_jobs_def createJob_def progress_of_def field_of_def get_prop_def)
  have h2: "\<forall>c \<in> set sample_calls. \<not> patches_progress ''j1'' c"
    by (simp add: sample_calls_def object_keys_def)
  have h3: "length (filter (adds_user ''j1'') sample_calls) = 2"
    by (simp add: sample_calls_def)
  from processed_monotone [OF h1 h2] h1 h2 h3 show ?thesis
    by (simp add: sample_calls_eval list_all_iff)
qed

text \<open>
  C3 as stated fails on both counts. After \<^verbatim>\<open>setTotalFollowers(0)\<close> one
  \<^verbatim>\<open>addProcessedUser\<close> leaves \<^verbatim>\<open>processed\<close> at 1 above a \<^verbatim>\<open>total\<close> of 0;
  a status update whose patch carries \<^verbatim>\<open>progress\<close> then takes \<^verbatim>\<open>processed\<close>
  back to 0.
\<close>

theorem progress_bound_counterexample:
  "progress_of (run_calls [SetTotalFollowers ''j1'' (JNum 0), AddProcessedUser ''j1'' (JStr ''ann'')]
                  sample_jobs) ''j1'' ''total'' = JNum 0 \<and>
   progress_of (run_calls [SetTotalFollowers ''j1'' (JNum 0), AddProcessedUser ''j1'' (JStr ''ann'')]
                  sample_jobs) ''j1'' ''processed'' = JNum 1 \<and>
   progress_of (run_calls [SetTotalFollowers ''j1'' (JNum 0), AddProcessedUser ''j1'' (JStr ''ann''),
                           UpdateJobStatus 2000 ''j1'' (JStr ''running'')
                             [(''progress'', JObj [(''total'', JNum 0), (''processed'', JNum 0)])]]
                  sample_jobs) ''j1'' ''processed'' = JNum 0"
  by (simp add: run_calls_def sample_jobs_def createJob_def
        addProcessedUser_def add_user_def setTotalFollowers_def set_progress_def
        updateJobStatus_def copy_keys_def assign_def object_keys_def progress_of_def field_of_def
        get_prop_def set_prop_def)

lemma too_old_dates:
  assumes "has_dates job"
  shows "too_old now 24 job \<longleftrightarrow> now - reference_time job > 24 * 60 * 60 * 1000"
proof -
  from assms obtain c where c: "get_prop job ''created'' = JDate c"
    by (cases "get_prop job ''created''") (simp_all add: has_dates_def)
  have rat: "(of_int (now - d) / of_int (1000 * 60 * 60) > (24::rat)) \<longleftrightarrow> now - d > 24 * 60 * 60 * 1000"
    for d :: int
  proof -
    have "(of_int (now - d) / of_int (1000 * 60 * 60) > (24::rat))
            \<longleftrightarrow> (of_int (24 * 60 * 60 * 1000) :: rat) < of_int (now - d)"
      by (simp add: field_simps)
    also have "\<dots> \<longleftrightarrow> 24 * 60 * 60 * 1000 < now - d"
      by (simp only: of_int_less_iff)
    finally show ?thesis .
  qed
  show ?thesis
  proof (cases "get_prop job ''completed''")
    case JUndefined
    with c rat [of c] show ?thesis
      by (simp add: too_old_def ageHours_def js_or_def reference_time_def)
  next
    case (JDate t)
    with c rat [of t] show ?thesis
      by (simp add: too_old_def ageHours_def js_or_def reference_time_def)
  qed (use assms in \<open>simp_all add: has_dates_def\<close>)
qed

lemma map_of_sweep_fold:
  "map_of (fold (\<lambda>(jobId, job) js. if P job then AList.delete jobId js else js) entries jobs) k =
     (if \<exists>job. (k, job) \<in> set entries \<and> P job then None else map_of jobs k)"
proof (induction entries arbitrary: jobs)
  case Nil
  then show ?case by simp
next
  case (Cons entry entries)
  obtain jobId job where entry: "entry = (jobId, job)" by (cases entry)
  show ?case
    unfolding entry by (auto simp: Cons.IH delete_conv')
qed

lemma map_of_cleanupOldJobs:
  assumes "distinct (map fst jobs)"
  shows "map_of (cleanupOldJobs now maxAgeHours jobs) jobId =
           (case map_of jobs jobId of
              None \<Rightarrow> None
            | Some job \<Rightarrow> if too_old now maxAgeHours job then None else Some job)"
proof (cases "map_of jobs jobId")
  case None
  then show ?thesis by (simp add: cleanupOldJobs_def map_of_sweep_fold)
next
  case (Some job)
  with assms have "(jobId, job') \<in> set jobs \<longleftrightarrow> job' = job" for job'
    by (metis map_of_eq_Some_iff option.inject)
  with Some show ?thesis by (simp add: cleanupOldJobs_def map_of_sweep_fold)
qed

text \<open>
  C7. In a table with one entry per job identifier, one sweep of the reaper at the
  default retention of 24 hours removes a job that carries its dates exactly when its
  age, counted from \<^verbatim>\<open>completed\<close> if that is set and from \<^verbatim>\<open>created\<close>
  otherwise, is more than 24 hours; a job that is not older stays in the table as it
  was, and the sweep brings no job in.
\<close>

theorem reaper_sweep_exact:
  assumes "distinct (map fst jobs)"
  shows "(\<forall>jobId job. map_of jobs jobId = Some job \<and> has_dates job \<longrightarrow>
            map_of (reaper_sweep now jobs) jobId =
              (if now - reference_time job > 24 * 60 * 60 * 1000 then None else Some job)) \<and>
         (\<forall>jobId. map_of jobs jobId = None \<longrightarrow> map_of (reaper_sweep now jobs) jobId = None)"
proof (intro conjI allI impI)
  fix jobId job
  assume "map_of jobs jobId = Some job \<and> has_dates job"
  then have m: "map_of jobs jobId = Some job" and h: "has_dates job"
    by simp_all
  show "map_of (reaper_sweep now jobs) jobId =
          (if now - reference_time job > 24 * 60 * 60 * 1000 then None else Some job)"
    by (simp add: reaper_sweep_def map_of_cleanupOldJobs [OF assms] m too_old_dates [OF h])
next
  fix jobId
  assume "map_of jobs jobId = None"
  then show "map_of (reaper_sweep now jobs) jobId = None"
    by (simp add: reaper_sweep_def map_of_cleanupOldJobs [OF assms])
qed

lemma sample_table_eval:
  "reaper_sweep 100000000 sample_table = [(''young'', sample_young), (''edge'', sample_edge)]"
  by (simp add: reaper_sweep_def cleanupOldJobs_def sample_table_def too_old_def ageHours_def
        js_or_def get_prop_def sample_old_def sample_young_def sample_edge_def sample_stuck_def)

text \<open>
  The theorem at a table of four jobs swept at time 100000000: one completed more
  than 24 hours before, one never completed and created more than 24 hours before,
  one completed recently and one exactly 24 hours old. The first two go.
\<close>

theorem reaper_sweep_exact_witness:
  "distinct (map fst sample_table) \<and>
   map_of sample_table ''old'' = Some sample_old \<and> has_dates sample_old \<and>
   map_of (reaper_sweep 100000000 sample_table) ''old'' = None \<and>
   map_of (reaper_sweep 100000000 sample_table) ''stuck'' = None \<and>
   map_of sample_table ''young'' = Some sample_young \<and> has_dates sample_young \<and>
   map_of (reaper_sweep 100000000 sample_table) ''young'' = Some sample_young \<and>
   map_of (reaper_sweep 100000000 sample_table) ''edge'' = Some sample_edge \<and>
   map_of (reaper_sweep 100000000 sample_table) ''none'' = None"
proof -
  have d: "distinct (map fst sample_table)"
    by (simp add: sample_table_def)
  have "map_of sample_table ''old'' = Some sample_old" "has_dates sample_old"
       "map_of sample_table ''young'' = Some sample_young" "has_dates sample_young"
    by (simp_all add: sample_table_def has_dates_def get_prop_def sample_old_def sample_young_def)
  with reaper_sweep_exact [OF d, of 100000000] d show ?thesis
    by (simp add: sample_table_eval)
qed

section \<open>Properties of follower discovery\<close>

lemma set_extract_followers:
  "set (extract_followers elements followers) =
     set followers \<union>
     {u. u \<noteq> [] \<and> (\<exists>element \<in> set elements. mentions_follow element \<and> link_text element = Some u)}"
  by (induction elements arbitrary: followers) (auto split: option.splits)

lemma distinct_extract_followers:
  "distinct followers \<Longrightarrow> distinct (extract_followers elements followers)"
  by (induction elements arbitrary: followers) (auto split: option.splits)

lemma filter_unprocessed_filter:
  "filter_unprocessed throws docs a usernames unprocessedFollowers =
     unprocessedFollowers @ filter (\<lambda>u. throws u \<or> findOne docs u a = None) usernames"
  by (induction usernames arbitrary: unprocessedFollowers) (auto split: option.splits)

lemma findOne_None:
  "findOne docs u a = None \<longleftrightarrow> (\<forall>t. (u, a, t) \<notin> set docs)"
  by (auto simp: findOne_def find_None_iff)

lemma checkNotifications_world:
  "snd (checkNotifications e has_coll a w) = say Scan w"
  by (simp add: checkNotifications_def Let_def split: sum.splits)

lemma checkNotifications_returns:
  "fst (checkNotifications e has_coll a w) =
     Inr (case feed e of
            Inl err \<Rightarrow> []
          | Inr elements \<Rightarrow>
              if has_coll
              then filter (\<lambda>u. find_throws e u \<or> findOne (records w) u a = None)
                     (extract_followers elements [])
              else extract_followers elements [])"
  by (simp add: checkNotifications_def Let_def filter_unprocessed_filter say_def split: sum.splits)

text \<open>
  C5. \<^verbatim>\<open>checkNotifications\<close> always returns a list. With a collection, an identity
  that has a processed record for the account owner and whose lookup does not throw is
  not in the list; an identity found on the page whose lookup throws is in the list.
  Without a collection the list is the page's follower names, each once, in page
  order.
\<close>

theorem discovery_skips_processed:
  "\<exists>found. fst (checkNotifications e has_coll a w) = Inr found \<and>
     (has_coll \<and> (\<exists>t. (x, a, t) \<in> set (records w)) \<and> \<not> find_throws e x \<longrightarrow> x \<notin> set found) \<and>
     (\<forall>elements. has_coll \<and> feed e = Inr elements \<and> find_throws e x \<and>
                  x \<in> set (extract_followers elements []) \<longrightarrow> x \<in> set found) \<and>
     (\<forall>elements. \<not> has_coll \<and> feed e = Inr elements \<longrightarrow>
        found = extract_followers elements [] \<and> distinct found \<and>
        set found = {u. u \<noteq> [] \<and>
                        (\<exists>element \<in> set elements. mentions_follow element \<and> link_text element = Some u)})"
  by (auto simp: checkNotifications_returns findOne_None set_extract_followers
        distinct_extract_followers split: sum.splits)

lemma sample_scan_eval:
  "fst (checkNotifications sample_scan True ''acme'' sample_world) = Inr [''ann'', ''bob'', ''cy'']"
  "fst (checkNotifications sample_scan_db_error True ''acme'' sample_world)
     = Inr [''ann'', ''old'', ''bob'', ''cy'']"
  "fst (checkNotifications sample_scan False ''acme'' sample_world)
     = Inr [''ann'', ''old'', ''bob'', ''cy'']"
  by (simp_all add: checkNotifications_returns sample_scan_def sample_scan_db_error_def
        sample_page_def sample_world_def findOne_def)

text \<open>
  The theorem at the sample page: \<^verbatim>\<open>old\<close> has a record and is left out; it is kept
  when its lookup throws, and when there is no collection.
\<close>

theorem discovery_skips_processed_witness:
  "(''old'', ''acme'', 5) \<in> set (records sample_world) \<and>
   \<not> find_throws sample_scan ''old'' \<and>
   fst (checkNotifications sample_scan True ''acme'' sample_world) = Inr [''ann'', ''bob'', ''cy''] \<and>
   ''old'' \<notin> set [''ann'', ''bob'', ''cy''] \<and>
   find_throws sample_scan_db_error ''old'' \<and>
   fst (checkNotifications sample_scan_db_error True ''acme'' sample_world)
     = Inr [''ann'', ''old'', ''bob'', ''cy''] \<and>
   fst (checkNotifications sample_scan False ''acme'' sample_world)
     = Inr [''ann'', ''old'', ''bob'', ''cy'']"
  using discovery_skips_processed [of sample_scan True "''acme''" sample_world "''old''"]
  by (simp add: sample_scan_eval) (simp add: sample_world_def sample_scan_def sample_scan_db_error_def)

section \<open>Properties of session establishment\<close>

lemma attempts_of_append [simp]:
  "attempts_of (evs @ evs') = attempts_of evs @ attempts_of evs'"
  by (induction evs rule: attempts_of.induct) simp_all

lemma trace_sleep [simp]:
  "attempts_of (trace (sleep ms w)) = attempts_of (trace w)"
  by (simp add: sleep_def)

lemma retry_pauses_sleeps [simp]:
  "retry_pauses (map Sleep ds @ evs) = retry_pauses evs"
  by (induction ds) simp_all

lemma sleeps_of_sleeps [simp]:
  "sleeps_of (map Sleep ds @ evs) = ds @ sleeps_of evs"
  by (induction ds) simp_all

lemma attempts_of_sleeps [simp]:
  "attempts_of (map Sleep ds @ evs) = attempts_of evs"
  by (induction ds) simp_all

lemma only_sleeps [simp]:
  "attempts_of (map Sleep ds) = []"
  "retry_pauses (map Sleep ds) = []"
  "sleeps_of (map Sleep ds) = ds"
  using attempts_of_sleeps [of ds "[]"] retry_pauses_sleeps [of ds "[]"] sleeps_of_sleeps [of ds "[]"]
  by simp_all















section \<open>Properties of the delivery loop\<close>

lemma add_user_shaped:
  assumes "field_of jobs jobId listName = JArr ys"
      and "progress_of jobs jobId ''processed'' = JNum n"
      and "listName \<noteq> ''progress''"
  shows "fst (add_user listName jobs jobId u) = Returns True \<and>
         field_of (snd (add_user listName jobs jobId u)) jobId listName = JArr (ys @ [u]) \<and>
         progress_of (snd (add_user listName jobs jobId u)) jobId ''processed'' = JNum (n + 1) \<and>
         (\<forall>key. key \<noteq> listName \<and> key \<noteq> ''progress'' \<longrightarrow>
            field_of (snd (add_user listName jobs jobId u)) jobId key = field_of jobs jobId key)"
proof -
  from progress_of_number [OF assms(2)] obtain job ps where
    j: "map_of jobs jobId = Some job" "get_prop job ''progress'' = JObj ps"
       "get_prop ps ''processed'' = JNum n"
    by blast
  with assms(1) have l: "get_prop job listName = JArr ys"
    by (simp add: field_of_def)
  from j l assms(3) show ?thesis
    by (simp add: add_user_def set_progress_def get_prop_set_prop progress_of_store_update
          field_of_store_update map_of_store_update field_of_def)
qed

lemma race_timeout_cases:
  "race_timeout e =
     (if (\<exists>ms. send_ms e = Some ms \<and> ms < 120000)
      then (send_result e, int (the (send_ms e)))
      else (Inl ''Message sending timeout'', 120000))"
  by (auto simp: race_timeout_def split: option.splits)

lemma deliver_pp_failure:
  assumes shaped: "job_field w ctx ''failedUsers'' = JArr ys" "job_processed w ctx = JNum n"
      and failure: "fst (race_timeout e) \<noteq> Inr True"
  shows "job_field (snd (deliver_pp ctx e username users w)) ctx ''failedUsers''
           = JArr (ys @ [user_data username ''failed'' (clock w + snd (race_timeout e))
                           (failure_detail (fst (race_timeout e)))]) \<and>
         job_processed (snd (deliver_pp ctx e username users w)) ctx = JNum (n + 1) \<and>
         records (snd (deliver_pp ctx e username users w))
           = (if has_collection ctx \<and> \<not> insert_throws e
              then records w @ [(username, owner ctx, clock w + snd (race_timeout e))]
              else records w) \<and>
         fst (deliver_pp ctx e username users w)
           = (fst users,
              snd users @ [user_data username ''failed'' (clock w + snd (race_timeout e))
                             (failure_detail (fst (race_timeout e)))])"
proof -
  obtain settled ms where r: "race_timeout e = (settled, ms)" by force
  obtain processedUsers failedUsers where u: "users = (processedUsers, failedUsers)" by force
  from shaped have s: "field_of (jobStore w) (job_id ctx) ''failedUsers'' = JArr ys"
      "progress_of (jobStore w) (job_id ctx) ''processed'' = JNum n"
    by (simp_all add: job_field_def job_processed_def)
  note add = add_user_shaped [OF s, of _, simplified]
  show ?thesis
  proof (cases settled)
    case (Inr success)
    with failure r have "\<not> success" by simp
    with Inr r u add show ?thesis
      by (simp add: deliver_pp_def Let_def markUserAsProcessed_def jm_addFailedUser_def
            addFailedUser_def say_def job_field_def job_processed_def)
  next
    case (Inl msg)
    with r u add show ?thesis
      by (simp add: deliver_pp_def Let_def markUserAsProcessed_def jm_addFailedUser_def
            addFailedUser_def say_def job_field_def job_processed_def)
  qed
qed

lemma sleeps_of_append [simp]:
  "sleeps_of (evs @ evs') = sleeps_of evs @ sleeps_of evs'"
  by (induction evs rule: sleeps_of.induct) simp_all

lemma loop_body_pp_connected:
  assumes "connected w" and "\<not> drop_before (steps env i)"
  shows "loop_body_pp ctx env remote newFollowers i users w =
           (Inr (), fst (deliver_pp ctx (steps env i) (newFollowers ! i) users w),
            sleep (if connected (snd (deliver_pp ctx (steps env i) (newFollowers ! i) users w))
                   then 5000 + \<lfloor>math_random (steps env i) * 5000\<rfloor> else 3000)
              (snd (deliver_pp ctx (steps env i) (newFollowers ! i) users w)))"
proof -
  have same: "w\<lparr>connected := True\<rparr> = w"
    using assms(1) by simp
  from assms show ?thesis
    by (simp add: loop_body_pp_def Let_def same split: prod.splits)
qed

lemma sleep_keeps [simp]:
  "jobStore (sleep ms w) = jobStore w"
  "records (sleep ms w) = records w"
  "connected (sleep ms w) = connected w"
  "job_field (sleep ms w) ctx key = job_field w ctx key"
  "job_processed (sleep ms w) ctx = job_processed w ctx"
  by (simp_all add: sleep_def job_field_def job_processed_def)

lemma loop_body_pw_false:
  assumes "job_manager ctx"
      and "job_field w ctx ''failedUsers'' = JArr ys" and "job_processed w ctx = JNum n"
      and "send_ms e = Some ms" and "send_result e = Inr False"
  shows "\<exists>users' w'. loop_body_pw ctx e username users w = Some (users', w') \<and>
           job_field w' ctx ''failedUsers'' = JArr (ys @ [JStr username]) \<and>
           job_processed w' ctx = JNum (n + 1) \<and>
           records w' = records w"
proof -
  obtain processedUsers failedUsers where u: "users = (processedUsers, failedUsers)" by force
  from assms(2,3) have s: "field_of (jobStore w) (job_id ctx) ''failedUsers'' = JArr ys"
      "progress_of (jobStore w) (job_id ctx) ''processed'' = JNum n"
    by (simp_all add: job_field_def job_processed_def)
  note add = add_user_shaped [OF s, of _, simplified]
  from assms(1,4,5) u add show ?thesis
    by (simp add: loop_body_pw_def Let_def guarded_def jm_addFailedUser_def addFailedUser_def
          say_def job_field_def job_processed_def)
qed

text \<open>
  C1, as the code has it. Puppeteer variant: for a candidate whose session is found
  connected and whose send does not come back true (it returned false, it threw, or
  the 120000 ms timer won the race, which counts as a throw with the message
  \<^verbatim>\<open>Message sending timeout\<close>), the turn of the loop ends normally, the job's
  \<^verbatim>\<open>failedUsers\<close> has one more entry, for this candidate, with status
  \<^verbatim>\<open>failed\<close> and a \<^verbatim>\<open>reason\<close> or \<^verbatim>\<open>error\<close>, \<^verbatim>\<open>progress.processed\<close> is
  one more, and \<^verbatim>\<open>markUserAsProcessed\<close> has run: the collection has a record for
  the candidate if there is a collection and the insert did not throw. Playwright
  variant, which has no timer and records only sent messages: for a candidate whose
  send returns false, the job's \<^verbatim>\<open>failedUsers\<close> has one more entry, the bare
  user name, \<^verbatim>\<open>progress.processed\<close> is one more, and the collection is as before.
\<close>

theorem failed_send_recorded:
  "(job_field w ctx ''failedUsers'' = JArr ys \<and> job_processed w ctx = JNum n \<and>
    i < length newFollowers \<and> connected w \<and> \<not> drop_before (steps env i) \<and>
    fst (race_timeout (steps env i)) \<noteq> Inr True \<longrightarrow>
      fst (loop_body_pp ctx env remote newFollowers i users w) = Inr () \<and>
      job_field (snd (snd (loop_body_pp ctx env remote newFollowers i users w))) ctx ''failedUsers''
        = JArr (ys @ [user_data (newFollowers ! i) ''failed''
                        (clock w + snd (race_timeout (steps env i)))
                        (failure_detail (fst (race_timeout (steps env i))))]) \<and>
      job_processed (snd (snd (loop_body_pp ctx env remote newFollowers i users w))) ctx = JNum (n + 1) \<and>
      records (snd (snd (loop_body_pp ctx env remote newFollowers i users w)))
        = (if has_collection ctx \<and> \<not> insert_throws (steps env i)
           then records w @ [(newFollowers ! i, owner ctx, clock w + snd (race_timeout (steps env i)))]
           else records w)) \<and>
   ((send_ms e = None \<or> (\<exists>ms. send_ms e = Some ms \<and> 120000 \<le> ms)) \<longrightarrow>
      race_timeout e = (Inl ''Message sending timeout'', 120000)) \<and>
   (job_manager ctx \<and> job_field w ctx ''failedUsers'' = JArr ys \<and> job_processed w ctx = JNum n \<and>
    send_ms e = Some ms \<and> send_result e = Inr False \<longrightarrow>
      (\<exists>users' w'. loop_body_pw ctx e username users w = Some (users', w') \<and>
         job_field w' ctx ''failedUsers'' = JArr (ys @ [JStr username]) \<and>
         job_processed w' ctx = JNum (n + 1) \<and>
         records w' = records w))"
proof (intro conjI impI)
  assume a: "job_field w ctx ''failedUsers'' = JArr ys \<and> job_processed w ctx = JNum n \<and>
    i < length newFollowers \<and> connected w \<and> \<not> drop_before (steps env i) \<and>
    fst (race_timeout (steps env i)) \<noteq> Inr True"
  then have c: "connected w" "\<not> drop_before (steps env i)" by simp_all
  from a have s: "job_field w ctx ''failedUsers'' = JArr ys" "job_processed w ctx = JNum n"
    and f: "fst (race_timeout (steps env i)) \<noteq> Inr True" by simp_all
  note d = deliver_pp_failure [OF s f, of "newFollowers ! i" users]
  show "fst (loop_body_pp ctx env remote newFollowers i users w) = Inr ()"
    by (simp add: loop_body_pp_connected [OF c])
  show "job_field (snd (snd (loop_body_pp ctx env remote newFollowers i users w))) ctx ''failedUsers''
        = JArr (ys @ [user_data (newFollowers ! i) ''failed''
                        (clock w + snd (race_timeout (steps env i)))
                        (failure_detail (fst (race_timeout (steps env i))))])"
    using d by (simp add: loop_body_pp_connected [OF c])
  show "job_processed (snd (snd (loop_body_pp ctx env remote newFollowers i users w))) ctx = JNum (n + 1)"
    using d by (simp add: loop_body_pp_connected [OF c])
  show "records (snd (snd (loop_body_pp ctx env remote newFollowers i users w)))
        = (if has_collection ctx \<and> \<not> insert_throws (steps env i)
           then records w @ [(newFollowers ! i, owner ctx, clock w + snd (race_timeout (steps env i)))]
           else records w)"
    using d by (simp add: loop_body_pp_connected [OF c])
next
  assume "send_ms e = None \<or> (\<exists>ms. send_ms e = Some ms \<and> 120000 \<le> ms)"
  then show "race_timeout e = (Inl ''Message sending timeout'', 120000)"
    by (auto simp: race_timeout_def)
next
  assume "job_manager ctx \<and> job_field w ctx ''failedUsers'' = JArr ys \<and> job_processed w ctx = JNum n \<and>
    send_ms e = Some ms \<and> send_result e = Inr False"
  then show "\<exists>users' w'. loop_body_pw ctx e username users w = Some (users', w') \<and>
         job_field w' ctx ''failedUsers'' = JArr (ys @ [JStr username]) \<and>
         job_processed w' ctx = JNum (n + 1) \<and>
         records w' = records w"
    using loop_body_pw_false [of ctx w ys n e ms username users] by blast
qed

lemma deliver_pp_trace:
  "trace (snd (deliver_pp ctx e username users w)) = trace w @ [Send username]"
  by (auto simp: deliver_pp_def Let_def markUserAsProcessed_def jm_addFailedUser_def
        jm_addProcessedUser_def say_def split: prod.splits sum.splits)

lemma deliver_pp_connected:
  "connected (snd (deliver_pp ctx e username users w)) \<longleftrightarrow>
     connected w \<and> \<not> drop_during e \<and>
     \<not> (\<exists>msg. fst (race_timeout e) = Inl msg \<and> connection_error msg)"
  by (auto simp: deliver_pp_def Let_def markUserAsProcessed_def jm_addFailedUser_def
        jm_addProcessedUser_def say_def split: prod.splits sum.splits)

lemma reconnect_pp_throws:
  "reconnect_pp remote env w = (Inl (Thrown ''browserWSEndpoint is not defined''), w)"
  by (simp add: reconnect_pp_def read_identifier_def scope_pp_def)

lemma loop_body_pp_disconnected:
  assumes "\<not> (connected w \<and> \<not> drop_before (steps env i))"
  shows "\<exists>msg. fst (loop_body_pp ctx env remote newFollowers i users w) = Inl msg \<and>
           trace (snd (snd (loop_body_pp ctx env remote newFollowers i users w))) = trace w"
  using assms
  by (simp add: loop_body_pp_def Let_def reconnect_pp_throws jm_updateJobStatus_def jm_failJob_def)

lemma random_range:
  fixes r :: rat
  assumes "0 \<le> r" and "r < 1" and "0 < n"
  shows "0 \<le> \<lfloor>r * of_int n\<rfloor>" and "\<lfloor>r * of_int n\<rfloor> \<le> n - 1"
proof -
  from assms show "0 \<le> \<lfloor>r * of_int n\<rfloor>" by simp
  from assms have "r * of_int n < of_int n"
    by (simp add: mult_less_cancel_right1)
  then have "\<lfloor>r * of_int n\<rfloor> < n" by (simp add: floor_less_iff)
  then show "\<lfloor>r * of_int n\<rfloor> \<le> n - 1" by simp
qed

lemma loop_body_pw_sleeps:
  assumes "send_ms e = Some ms"
  shows "\<exists>users' w'. loop_body_pw ctx e username users w = Some (users', w') \<and>
           sleeps_of (trace w') = sleeps_of (trace w) @ [\<lfloor>math_random e * 30001\<rfloor> + 30000]"
  using assms
  by (auto simp: loop_body_pw_def Let_def markUserAsProcessed_def guarded_def jm_addFailedUser_def
        jm_addProcessedUser_def say_def sleep_def split: prod.splits sum.splits)

text \<open>
  C9, as the code has it. Puppeteer variant: after a candidate whose session was found
  connected the loop sleeps once; for \<^verbatim>\<open>Math.random()\<close> in [0, 1) the sleep is
  \<open>5000 + \<lfloor>random * 5000\<rfloor>\<close> ms, between 5000 and 9999, when the browser is still
  connected after the send, and the fixed 3000 ms when it is not (the connection was
  lost during the send, or closed after an error with a connection signature), that
  is when the next turn will have to reconnect. A turn that finds the session
  disconnected does not sleep. Playwright variant: after every candidate whose send
  settles the loop sleeps \<open>\<lfloor>random * 30001\<rfloor> + 30000\<close> ms, between 30000 and 60000.
  The bounds are constants of the code.
\<close>

theorem pacing_interval:
  "(connected w \<and> \<not> drop_before (steps env i) \<and>
    0 \<le> math_random (steps env i) \<and> math_random (steps env i) < 1 \<longrightarrow>
      (\<exists>d. sleeps_of (trace (snd (snd (loop_body_pp ctx env remote newFollowers i users w))))
              = sleeps_of (trace w) @ [d] \<and>
           (if \<not> drop_during (steps env i) \<and>
               \<not> (\<exists>msg. fst (race_timeout (steps env i)) = Inl msg \<and> connection_error msg)
            then d = 5000 + \<lfloor>math_random (steps env i) * 5000\<rfloor> \<and> 5000 \<le> d \<and> d \<le> 9999
            else d = 3000))) \<and>
   (\<not> (connected w \<and> \<not> drop_before (steps env i)) \<longrightarrow>
      sleeps_of (trace (snd (snd (loop_body_pp ctx env remote newFollowers i users w))))
        = sleeps_of (trace w)) \<and>
   (send_ms e = Some ms \<and> 0 \<le> math_random e \<and> math_random e < 1 \<longrightarrow>
      (\<exists>users' w' d. loop_body_pw ctx e username users w = Some (users', w') \<and>
         sleeps_of (trace w') = sleeps_of (trace w) @ [d] \<and>
         d = \<lfloor>math_random e * 30001\<rfloor> + 30000 \<and> 30000 \<le> d \<and> d \<le> 60000))"
proof (intro conjI impI)
  assume a: "connected w \<and> \<not> drop_before (steps env i) \<and>
    0 \<le> math_random (steps env i) \<and> math_random (steps env i) < 1"
  then have c: "connected w" "\<not> drop_before (steps env i)" by simp_all
  from a random_range [of "math_random (steps env i)" 5000]
  have r: "0 \<le> \<lfloor>math_random (steps env i) * 5000\<rfloor>" "\<lfloor>math_random (steps env i) * 5000\<rfloor> \<le> 4999"
    by simp_all
  show "\<exists>d. sleeps_of (trace (snd (snd (loop_body_pp ctx env remote newFollowers i users w))))
              = sleeps_of (trace w) @ [d] \<and>
           (if \<not> drop_during (steps env i) \<and>
               \<not> (\<exists>msg. fst (race_timeout (steps env i)) = Inl msg \<and> connection_error msg)
            then d = 5000 + \<lfloor>math_random (steps env i) * 5000\<rfloor> \<and> 5000 \<le> d \<and> d \<le> 9999
            else d = 3000)"
    using r c(1)
    by (auto simp add: loop_body_pp_connected [OF c] deliver_pp_connected deliver_pp_trace sleep_def)
next
  assume "\<not> (connected w \<and> \<not> drop_before (steps env i))"
  from loop_body_pp_disconnected [OF this, of ctx remote newFollowers users]
  show "sleeps_of (trace (snd (snd (loop_body_pp ctx env remote newFollowers i users w))))
        = sleeps_of (trace w)"
    by auto
next
  assume a: "send_ms e = Some ms \<and> 0 \<le> math_random e \<and> math_random e < 1"
  with random_range [of "math_random e" 30001]
  have r: "0 \<le> \<lfloor>math_random e * 30001\<rfloor>" "\<lfloor>math_random e * 30001\<rfloor> \<le> 30000"
    by simp_all
  from a loop_body_pw_sleeps [of e ms ctx username users w] r
  show "\<exists>users' w' d. loop_body_pw ctx e username users w = Some (users', w') \<and>
         sleeps_of (trace w') = sleeps_of (trace w) @ [d] \<and>
         d = \<lfloor>math_random e * 30001\<rfloor> + 30000 \<and> 30000 \<le> d \<and> d \<le> 60000"
    by auto
qed

text \<open>Unfolding the bot on the sample inputs.\<close>

lemmas bot_defs =
  background_job_pp_def processFollowersJob_pp_def try_block_pp_def processFollowersJob_pw_def
  notification_retry.simps notification_warning_def checkNotifications_def
  maxNotificationRetries_def delivery_loop_pp.simps loop_body_pp_def deliver_pp_def
  deliver_after_reconnect_pp_def loop_body_pw_def reconnect_pp_def read_identifier_def scope_pp_def
  race_timeout_def user_data_def connection_error_def close_browser_def markUserAsProcessed_def
  findOne_def jm_updateJobStatus_def jm_addProcessedUser_def jm_addFailedUser_def
  jm_setTotalFollowers_def jm_completeJob_def jm_failJob_def guarded_def say_def sleep_def
  initBrowser_pp_def initBrowser_pw_def initBrowser_def initBrowser_loop.simps maxRetries_def
  try_init_pp_def try_init_pw_def navigate.simps navigationRetries_def
  updateJobStatus_def addProcessedUser_def addFailedUser_def add_user_def setTotalFollowers_def
  set_progress_def completeJob_def default_result_def failJob_def copy_keys_def assign_def object_keys_def
  get_prop_def set_prop_def field_of_def progress_of_def job_field_def job_processed_def
  show_nat.simps digit_char_def Let_def

lemma floor_half_30001:
  "\<lfloor>30001 / 2 :: rat\<rfloor> = 15000"
  by (simp add: floor_eq_iff)

lemmas sample_defs = floor_half_30001
  sample_ctx_def sample_env_def sample_env_blind_def sample_send_def sample_send_false_def
  sample_send_hangs_def sample_send_drops_def sample_send_lost_def sample_world_def
  sample_jobs_def createJob_def sample_scan_def sample_scan_throws_def sample_page_def
  sample_attempt_ok_def sample_followers_def

text \<open>
  The theorem at the second of three candidates in the sample world: a send that
  never settles (Puppeteer) and a send that returns false (Playwright).
\<close>

theorem failed_send_recorded_witness:
  "job_field sample_world sample_ctx ''failedUsers'' = JArr [] \<and>
   job_processed sample_world sample_ctx = JNum 0 \<and>
   connected sample_world \<and> \<not> drop_before (steps (sample_env sample_send_hangs) 1) \<and>
   race_timeout (steps (sample_env sample_send_hangs) 1) = (Inl ''Message sending timeout'', 120000) \<and>
   job_field (snd (snd (loop_body_pp sample_ctx (sample_env sample_send_hangs) True sample_followers 1
                          ([], []) sample_world))) sample_ctx ''failedUsers''
     = JArr [JObj [(''username'', JStr ''bob''), (''status'', JStr ''failed''),
                   (''timestamp'', JIsoString 121000),
                   (''error'', JStr ''Message sending timeout'')]] \<and>
   job_processed (snd (snd (loop_body_pp sample_ctx (sample_env sample_send_hangs) True sample_followers 1
                              ([], []) sample_world))) sample_ctx = JNum 1 \<and>
   records (snd (snd (loop_body_pp sample_ctx (sample_env sample_send_hangs) True sample_followers 1
                        ([], []) sample_world)))
     = [(''old'', ''acme'', 5), (''bob'', ''acme'', 121000)] \<and>
   job_manager sample_ctx \<and> send_ms sample_send_false = Some 4000 \<and>
   send_result sample_send_false = Inr False \<and>
   job_field (snd (the (loop_body_pw sample_ctx sample_send_false ''bob'' ([], []) sample_world)))
     sample_ctx ''failedUsers'' = JArr [JStr ''bob''] \<and>
   job_processed (snd (the (loop_body_pw sample_ctx sample_send_false ''bob'' ([], []) sample_world)))
     sample_ctx = JNum 1"
proof -
  have shaped: "job_field sample_world sample_ctx ''failedUsers'' = JArr []"
      "job_processed sample_world sample_ctx = JNum 0"
    by (simp_all add: bot_defs sample_defs)
  have live: "connected sample_world" "\<not> drop_before (steps (sample_env sample_send_hangs) 1)"
      "1 < length sample_followers"
    by (simp_all add: bot_defs sample_defs)
  have race: "race_timeout (steps (sample_env sample_send_hangs) 1)
                = (Inl ''Message sending timeout'', 120000)"
    by (simp add: bot_defs sample_defs)
  have pw: "job_manager sample_ctx" "send_ms sample_send_false = Some 4000"
      "send_result sample_send_false = Inr False"
    by (simp_all add: bot_defs sample_defs)
  have vals: "sample_followers ! 1 = ''bob''" "clock sample_world = 1000"
      "has_collection sample_ctx" "\<not> insert_throws (steps (sample_env sample_send_hangs) 1)"
      "owner sample_ctx = ''acme''" "records sample_world = [(''old'', ''acme'', 5)]"
    by (simp_all add: bot_defs sample_defs)
  from failed_send_recorded [where w = sample_world and ctx = sample_ctx and ys = "[]" and n = 0
      and i = 1 and newFollowers = sample_followers and env = "sample_env sample_send_hangs"
      and remote = True and users = "([], [])" and e = sample_send_false and ms = 4000
      and username = "''bob''"]
    shaped live race pw vals
  show ?thesis
    by (auto simp: user_data_def)
qed

text \<open>
  C1 as stated fails. In the Playwright variant a candidate whose send returns false
  gets no processed record, although a collection is there and inserts work, and the
  entry in the job's \<^verbatim>\<open>failedUsers\<close> is the bare user name, without a detail. In
  the Puppeteer variant a failed candidate gets no record when no collection is
  configured.
\<close>

theorem failed_send_counterexample:
  "loop_body_pw sample_ctx sample_send_false ''bob'' ([], []) sample_world \<noteq> None \<and>
   has_collection sample_ctx \<and> \<not> insert_throws sample_send_false \<and>
   records (snd (the (loop_body_pw sample_ctx sample_send_false ''bob'' ([], []) sample_world)))
     = [(''old'', ''acme'', 5)] \<and>
   job_field (snd (the (loop_body_pw sample_ctx sample_send_false ''bob'' ([], []) sample_world)))
     sample_ctx ''failedUsers'' = JArr [JStr ''bob''] \<and>
   records (snd (snd (loop_body_pp (sample_ctx\<lparr>has_collection := False\<rparr>) (sample_env sample_send_false)
                        True sample_followers 1 ([], []) sample_world)))
     = [(''old'', ''acme'', 5)]"
  by (simp add: bot_defs sample_defs)

text \<open>
  The theorem at the second candidate of the sample world: a send that succeeds with
  the browser still connected (7500 ms), a send during which the connection drops
  (3000 ms), and the Playwright loop (45000 ms).
\<close>

theorem pacing_interval_witness:
  "connected sample_world \<and> \<not> drop_before (steps (sample_env sample_send) 1) \<and>
   0 \<le> math_random (steps (sample_env sample_send) 1) \<and>
   math_random (steps (sample_env sample_send) 1) < 1 \<and>
   sleeps_of (trace (snd (snd (loop_body_pp sample_ctx (sample_env sample_send) True sample_followers 1
                                 ([], []) sample_world)))) = [7500] \<and>
   sleeps_of (trace (snd (snd (loop_body_pp sample_ctx (sample_env sample_send_drops) True
                                 sample_followers 1 ([], []) sample_world)))) = [3000] \<and>
   send_ms sample_send = Some 4000 \<and>
   sleeps_of (trace (snd (the (loop_body_pw sample_ctx sample_send ''bob'' ([], []) sample_world))))
     = [45000]"
proof -
  have live: "connected sample_world" "\<not> drop_before (steps (sample_env sample_send) 1)"
      "0 \<le> math_random (steps (sample_env sample_send) 1)"
      "math_random (steps (sample_env sample_send) 1) < 1"
      "send_ms sample_send = Some 4000"
    by (simp_all add: bot_defs sample_defs)
  have vals: "sleeps_of (trace (snd (snd (loop_body_pp sample_ctx (sample_env sample_send) True
                sample_followers 1 ([], []) sample_world)))) = [7500]"
      "sleeps_of (trace (snd (snd (loop_body_pp sample_ctx (sample_env sample_send_drops) True
                sample_followers 1 ([], []) sample_world)))) = [3000]"
      "sleeps_of (trace (snd (the (loop_body_pw sample_ctx sample_send ''bob'' ([], []) sample_world))))
         = [45000]"
    by (simp_all add: bot_defs sample_defs)
  from pacing_interval [where w = sample_world and ctx = sample_ctx and i = 1
      and newFollowers = sample_followers and env = "sample_env sample_send" and remote = True
      and users = "([], [])" and e = sample_send and ms = 4000 and username = "''bob''"]
    live vals
  show ?thesis
    by simp
qed

text \<open>
  C9 as stated fails. The connection drops during the send to the second candidate:
  no reconnection has taken place (no session attempt is in the trace), and the loop
  sleeps the short 3000 ms, not the \<open>5000 + \<lfloor>random * 5000\<rfloor> = 7500\<close> ms of the
  randomized range.
\<close>

theorem pacing_counterexample:
  "sleeps_of (trace (snd (snd (loop_body_pp sample_ctx (sample_env sample_send_drops) True
                                 sample_followers 1 ([], []) sample_world)))) = [3000] \<and>
   attempts_of (trace (snd (snd (loop_body_pp sample_ctx (sample_env sample_send_drops) True
                                   sample_followers 1 ([], []) sample_world)))) = [] \<and>
   5000 + \<lfloor>math_random (steps (sample_env sample_send_drops) 1) * 5000\<rfloor> = 7500"
  by (simp add: bot_defs sample_defs)

text \<open>
  C4 fails on the code. The reconnection branch calls
  \<^verbatim>\<open>initBrowser(cookies, headless, browserWSEndpoint)\<close>, and \<^verbatim>\<open>browserWSEndpoint\<close>
  is bound nowhere in \<^verbatim>\<open>processFollowersJob\<close>: whatever the browser would do, the
  call throws before \<^verbatim>\<open>initBrowser\<close> is entered. In the sample world the
  connection is lost before the second of three candidates and the browser would come
  up at the first attempt; the job ends failed, the second candidate is never sent
  to, and the job's error counts one message sent and two followers not processed.
\<close>

theorem reconnection_never_succeeds:
  "reconnect_pp remote env w = (Inl (Thrown ''browserWSEndpoint is not defined''), w) \<and>
   fst (initBrowser_pp (reinit (sample_env sample_send_lost) 1) True sample_world)
     = Inr (Some (Session 0)) \<and>
   job_field (background_job_pp sample_ctx (sample_env sample_send_lost) True sample_world)
     sample_ctx ''status'' = JStr ''failed'' \<and>
   job_field (background_job_pp sample_ctx (sample_env sample_send_lost) True sample_world)
     sample_ctx ''error''
     = JStr ''Process interrupted after 1 successful messages. 2 followers were not processed.'' \<and>
   trace (background_job_pp sample_ctx (sample_env sample_send_lost) True sample_world)
     = [Scan, Send ''ann'', Sleep 7500]"
proof -
  have "fst (initBrowser_pp (reinit (sample_env sample_send_lost) 1) True sample_world)
          = Inr (Some (Session 0))"
    by (simp add: bot_defs sample_defs)
  moreover have "job_field (background_job_pp sample_ctx (sample_env sample_send_lost) True sample_world)
     sample_ctx ''status'' = JStr ''failed''"
    by (simp add: bot_defs sample_defs)
  moreover have "job_field (background_job_pp sample_ctx (sample_env sample_send_lost) True sample_world)
     sample_ctx ''error''
     = JStr ''Process interrupted after 1 successful messages. 2 followers were not processed.''"
    by (simp add: bot_defs sample_defs)
  moreover have "trace (background_job_pp sample_ctx (sample_env sample_send_lost) True sample_world)
     = [Scan, Send ''ann'', Sleep 7500]"
    by (simp add: bot_defs sample_defs)
  ultimately show ?thesis
    by (simp add: reconnect_pp_throws)
qed

lemma notification_retry_first:
  "notification_retry ctx warn scan 0 w =
     (case fst (checkNotifications (scan 0) (has_collection ctx) (owner ctx) w) of
        Inr found \<Rightarrow> found
      | Inl notifError \<Rightarrow> [],
      say Scan w)"
proof -
  obtain r w1 where c: "checkNotifications (scan 0) (has_collection ctx) (owner ctx) w = (r, w1)"
    by force
  from checkNotifications_returns [of "scan 0" "has_collection ctx" "owner ctx" w] c
  obtain found where r: "r = Inr found" by simp
  from checkNotifications_world [of "scan 0" "has_collection ctx" "owner ctx" w] c
  have w1: "w1 = say Scan w" by simp
  show ?thesis
    by (subst notification_retry.simps) (simp add: c r w1 maxNotificationRetries_def)
qed

text \<open>
  C6 fails on the code. \<^verbatim>\<open>checkNotifications\<close> catches every error of the scan
  itself and returns the empty list, so the retry loop around it never sees a failure:
  whatever the page does, the loop scans once, does not wait and does not annotate the
  job. In the sample world with a notifications page that cannot be loaded the job
  completes with \<^verbatim>\<open>No new followers to process\<close> after one scan, and carries no
  \<^verbatim>\<open>warning\<close>.
\<close>

theorem discovery_scans_once:
  "fst (checkNotifications (scan 0) (has_collection ctx) (owner ctx) w)
     = Inr (fst (notification_retry ctx warn scan 0 w)) \<and>
   snd (notification_retry ctx warn scan 0 w) = say Scan w \<and>
   processFollowersJob_pw sample_ctx sample_env_blind sample_world \<noteq> None \<and>
   trace (snd (the (processFollowersJob_pw sample_ctx sample_env_blind sample_world))) = [Scan] \<and>
   job_field (snd (the (processFollowersJob_pw sample_ctx sample_env_blind sample_world)))
     sample_ctx ''status'' = JStr ''completed'' \<and>
   job_field (snd (the (processFollowersJob_pw sample_ctx sample_env_blind sample_world)))
     sample_ctx ''message'' = JStr ''No new followers to process'' \<and>
   job_field (snd (the (processFollowersJob_pw sample_ctx sample_env_blind sample_world)))
     sample_ctx ''warning'' = JUndefined"
proof -
  have "fst (checkNotifications (scan 0) (has_collection ctx) (owner ctx) w)
          = Inr (fst (notification_retry ctx warn scan 0 w))"
    using checkNotifications_returns [of "scan 0" "has_collection ctx" "owner ctx" w]
    by (simp add: notification_retry_first)
  moreover have "snd (notification_retry ctx warn scan 0 w) = say Scan w"
    by (simp add: notification_retry_first)
  moreover have "processFollowersJob_pw sample_ctx sample_env_blind sample_world \<noteq> None"
    "trace (snd (the (processFollowersJob_pw sample_ctx sample_env_blind sample_world))) = [Scan]"
    "job_field (snd (the (processFollowersJob_pw sample_ctx sample_env_blind sample_world)))
       sample_ctx ''status'' = JStr ''completed''"
    "job_field (snd (the (processFollowersJob_pw sample_ctx sample_env_blind sample_world)))
       sample_ctx ''message'' = JStr ''No new followers to process''"
    "job_field (snd (the (processFollowersJob_pw sample_ctx sample_env_blind sample_world)))
       sample_ctx ''warning'' = JUndefined"
    by (simp_all add: bot_defs sample_defs)
  ultimately show ?thesis by simp
qed

section \<open>The job keeps its shape\<close>

text \<open>
  The calls of the bot leave a job that \<^verbatim>\<open>createJob\<close> made with its two arrays and
  its numeric counter, so none of them throws and every turn of the delivery loop
  finds the job as the statements above assume it.
\<close>

lemma well_shaped_createJob:
  "well_shaped (snd (createJob jobs now jobId params)) jobId"
  by (simp add: well_shaped_def createJob_def field_of_def progress_of_def get_prop_def
        map_of_store_update)

lemma well_shaped_cases:
  "well_shaped jobs jobId \<longleftrightarrow>
     (\<exists>xs ys n. field_of jobs jobId ''processedUsers'' = JArr xs \<and>
                field_of jobs jobId ''failedUsers'' = JArr ys \<and>
                progress_of jobs jobId ''processed'' = JNum n)"
proof -
  have a: "is_array v \<longleftrightarrow> (\<exists>xs. v = JArr xs)" for v by (cases v) simp_all
  have n: "is_number v \<longleftrightarrow> (\<exists>k. v = JNum k)" for v by (cases v) simp_all
  show ?thesis by (auto simp: well_shaped_def a n)
qed

lemma well_shaped_add_user:
  assumes "well_shaped jobs jobId" and "listName = ''processedUsers'' \<or> listName = ''failedUsers''"
  shows "well_shaped (snd (add_user listName jobs jobId u)) jobId \<and>
         fst (add_user listName jobs jobId u) = Returns True"
proof -
  from assms(1) obtain xs ys n where
    s: "field_of jobs jobId ''processedUsers'' = JArr xs"
       "field_of jobs jobId ''failedUsers'' = JArr ys"
       "progress_of jobs jobId ''processed'' = JNum n"
    by (auto simp: well_shaped_cases)
  from assms(2) show ?thesis
  proof
    assume l: "listName = ''processedUsers''"
    from add_user_shaped [OF s(1) s(3), of u] s(2) show ?thesis
      unfolding l by (simp add: well_shaped_cases)
  next
    assume l: "listName = ''failedUsers''"
    from add_user_shaped [OF s(2) s(3), of u] s(1) show ?thesis
      unfolding l by (simp add: well_shaped_cases)
  qed
qed

lemma well_shaped_jm_add:
  assumes "well_shaped (jobStore w) (job_id ctx)"
  shows "well_shaped (jobStore (jm_addProcessedUser ctx u w)) (job_id ctx)"
    and "well_shaped (jobStore (jm_addFailedUser ctx u w)) (job_id ctx)"
  using well_shaped_add_user [OF assms, of "''processedUsers''" u]
        well_shaped_add_user [OF assms, of "''failedUsers''" u]
  by (simp_all add: jm_addProcessedUser_def jm_addFailedUser_def addProcessedUser_def
        addFailedUser_def)

lemma well_shaped_updateJobStatus:
  assumes "well_shaped jobs jobId"
      and "''processedUsers'' \<notin> set (object_keys data)" "''failedUsers'' \<notin> set (object_keys data)"
          "''progress'' \<notin> set (object_keys data)"
  shows "well_shaped (snd (updateJobStatus jobs now jobId status data)) jobId"
proof -
  from assms(1) obtain job where j: "map_of jobs jobId = Some job"
    by (auto simp: well_shaped_cases progress_of_def field_of_def split: option.splits)
  from assms show ?thesis
    by (simp add: well_shaped_def progress_of_def field_of_updateJobStatus [OF j])
qed

lemma well_shaped_failJob:
  assumes "well_shaped jobs jobId"
  shows "well_shaped (snd (failJob jobs now jobId e)) jobId"
proof -
  from assms obtain job where j: "map_of jobs jobId = Some job"
    by (auto simp: well_shaped_cases progress_of_def field_of_def split: option.splits)
  from assms show ?thesis
    by (simp add: well_shaped_def progress_of_def field_of_failJob [OF j])
qed

lemma well_shaped_jm_update:
  assumes "well_shaped (jobStore w) (job_id ctx)"
      and "''processedUsers'' \<notin> set (object_keys data)" "''failedUsers'' \<notin> set (object_keys data)"
          "''progress'' \<notin> set (object_keys data)"
  shows "well_shaped (jobStore (jm_updateJobStatus ctx status data w)) (job_id ctx)"
  using well_shaped_updateJobStatus [OF assms]
  by (simp add: jm_updateJobStatus_def)

lemma well_shaped_jm_failJob:
  assumes "well_shaped (jobStore w) (job_id ctx)"
  shows "well_shaped (jobStore (jm_failJob ctx msg w)) (job_id ctx)"
  using well_shaped_failJob [OF assms] by (simp add: jm_failJob_def)

lemma jobStore_markUserAsProcessed [simp]:
  "jobStore (snd (markUserAsProcessed c t u a w)) = jobStore w"
  by (simp add: markUserAsProcessed_def)

lemma well_shaped_deliver_pp:
  assumes "well_shaped (jobStore w) (job_id ctx)"
  shows "well_shaped (jobStore (snd (deliver_pp ctx e username users w))) (job_id ctx)"
proof -
  have w: "well_shaped (jobStore (w'\<lparr>connected := c\<rparr>)) (job_id ctx) =
           well_shaped (jobStore w') (job_id ctx)" for w' c
    by simp
  obtain settled ms where r: "race_timeout e = (settled, ms)" by force
  obtain processedUsers failedUsers where u: "users = (processedUsers, failedUsers)" by force
  define w2 where "w2 = (say (Send username) w)\<lparr>clock := clock (say (Send username) w) + ms,
      connected := connected (say (Send username) w) \<and> \<not> drop_during e\<rparr>"
  have s2: "well_shaped (jobStore w2) (job_id ctx)"
    using assms by (simp add: w2_def say_def)
  have m: "well_shaped (jobStore (snd (markUserAsProcessed c t username a w2))) (job_id ctx)" for c t a
    using s2 by simp
  show ?thesis
  proof (cases settled)
    case (Inr success)
    with r u well_shaped_jm_add [of "snd (markUserAsProcessed (has_collection ctx) (insert_throws e)
        username (owner ctx) w2)" ctx] m
    show ?thesis
      by (auto simp: deliver_pp_def Let_def w2_def split: prod.splits)
  next
    case (Inl msg)
    have "well_shaped (jobStore (jm_addFailedUser ctx u' w2)) (job_id ctx)" for u'
      using well_shaped_jm_add(2) [OF s2] .
    with Inl r u show ?thesis
      by (auto simp: deliver_pp_def Let_def w2_def markUserAsProcessed_def split: prod.splits)
  qed
qed

lemma well_shaped_loop_body_pp:
  assumes "well_shaped (jobStore w) (job_id ctx)"
  shows "well_shaped (jobStore (snd (snd (loop_body_pp ctx env remote newFollowers i users w))))
           (job_id ctx)"
proof (cases "connected w \<and> \<not> drop_before (steps env i)")
  case True
  then show ?thesis
    using well_shaped_deliver_pp [OF assms]
    by (simp add: loop_body_pp_connected)
next
  case False
  have s: "well_shaped (jobStore (w\<lparr>connected := c\<rparr>)) (job_id ctx)" for c
    using assms by simp
  have "well_shaped
          (jobStore (jm_failJob ctx msg
             (jm_updateJobStatus ctx ''reconnecting'' [(''warning'', v)] (w\<lparr>connected := c\<rparr>))))
          (job_id ctx)" for msg v c
    by (rule well_shaped_jm_failJob, rule well_shaped_jm_update [OF s])
       (simp_all add: object_keys_def)
  then show ?thesis
    using False by (simp add: loop_body_pp_def Let_def reconnect_pp_throws)
qed

lemma well_shaped_delivery_loop_pp:
  assumes "well_shaped (jobStore w) (job_id ctx)"
  shows "well_shaped (jobStore (snd (snd (delivery_loop_pp ctx env remote newFollowers i users w))))
           (job_id ctx)"
  using assms
proof (induction "length newFollowers - i" arbitrary: i users w)
  case 0
  then show ?case
    by (subst delivery_loop_pp.simps) simp
next
  case (Suc k)
  show ?case
  proof (cases "i < length newFollowers")
    case False
    with Suc.prems show ?thesis
      by (subst delivery_loop_pp.simps) simp
  next
    case True
    obtain r users' w' where b: "loop_body_pp ctx env remote newFollowers i users w = (r, users', w')"
      by (cases "loop_body_pp ctx env remote newFollowers i users w") auto
    from well_shaped_loop_body_pp [OF Suc.prems, of env remote newFollowers i users] b
    have s: "well_shaped (jobStore w') (job_id ctx)" by simp
    show ?thesis
    proof (cases r)
      case (Inl thrown)
      with True b s show ?thesis
        by (subst delivery_loop_pp.simps) simp
    next
      case (Inr u)
      from Suc.hyps(2) True have k: "k = length newFollowers - (i + 1)" by simp
      from Suc.hyps(1) [OF k s, of users'] True b Inr show ?thesis
        by (subst delivery_loop_pp.simps) simp
    qed
  qed
qed

end
